theory Spec2Isabelle
  imports Complex_Main
begin

section \<open>The schema of \<open>app/models.py\<close>\<close>

text \<open>
  The module declares two enumerations, seven table classes and a family of plain
  (non-table) classes for create requests, update requests and responses. It has no
  function bodies: what the module does is what its class declarations mean when an
  object is built from keyword input. The embedding therefore keeps every class as the
  list of its field declarations, in source order, and gives the declarations their
  meaning by one generic constructor.
\<close>

subsection \<open>Enumerations\<close>

datatype NotificationStatus = PENDING | SENT | DISMISSED

datatype AlertCondition = OVERBOUGHT | OVERSOLD | CUSTOM

fun NotificationStatus_value :: "NotificationStatus \<Rightarrow> string" where
  "NotificationStatus_value PENDING = ''pending''"
| "NotificationStatus_value SENT = ''sent''"
| "NotificationStatus_value DISMISSED = ''dismissed''"

fun AlertCondition_value :: "AlertCondition \<Rightarrow> string" where
  "AlertCondition_value OVERBOUGHT = ''overbought''"
| "AlertCondition_value OVERSOLD = ''oversold''"
| "AlertCondition_value CUSTOM = ''custom''"

definition NotificationStatus_members :: "NotificationStatus list" where
  "NotificationStatus_members = [PENDING, SENT, DISMISSED]"

definition AlertCondition_members :: "AlertCondition list" where
  "AlertCondition_members = [OVERBOUGHT, OVERSOLD, CUSTOM]"

text \<open>
  \<open>NotificationStatus(s)\<close> and \<open>AlertCondition(s)\<close>: the lookup of a member by its
  value. Python raises \<open>ValueError\<close> when no member has the value; here that is
  \<open>None\<close>.
\<close>

definition NotificationStatus_of :: "string \<Rightarrow> NotificationStatus option" where
  "NotificationStatus_of s = find (\<lambda>m. NotificationStatus_value m = s) NotificationStatus_members"

definition AlertCondition_of :: "string \<Rightarrow> AlertCondition option" where
  "AlertCondition_of s = find (\<lambda>m. AlertCondition_value m = s) AlertCondition_members"

subsection \<open>Values\<close>

text \<open>
  A finite \<open>decimal.Decimal\<close> is a sign, a coefficient and an exponent
  (\<open>Decimal.as_tuple\<close>); the coefficient's digit tuple has no leading zero, so it is
  a natural number. \<open>Decimal("70.00")\<close> is coefficient 7000, exponent -2. NaN and the
  infinities are left out.
\<close>

record Decimal =
  negative :: bool
  coefficient :: nat
  exponent :: int

definition dec :: "nat \<Rightarrow> int \<Rightarrow> Decimal" where
  "dec c e = \<lparr>negative = False, coefficient = c, exponent = e\<rparr>"

text \<open>The number a \<open>Decimal\<close> stands for.\<close>

definition decimal_value :: "Decimal \<Rightarrow> rat" where
  "decimal_value d =
     (if negative d then - 1 else 1) * of_nat (coefficient d) *
     (if 0 \<le> exponent d then 10 ^ nat (exponent d) else 1 / 10 ^ nat (- exponent d))"

record datetime =
  year :: nat
  month :: nat
  day :: nat
  hour :: nat
  minute :: nat
  second :: nat
  microsecond :: nat

text \<open>
  The values of a \<open>Dict[str, Any]\<close> column; the module's own defaults use booleans,
  integers and strings only.
\<close>

datatype json = JBool bool | JInt int | JStr string

text \<open>
  The values of the fields. A string is the list of its characters, so \<open>length\<close> is
  the number of characters that \<open>max_length\<close> bounds; an enumeration member is a
  value of its own, apart from the string that is its value.
\<close>

datatype pyval =
    VNone
  | VBool bool
  | VInt int
  | VStr string
  | VDecimal Decimal
  | VDatetime datetime
  | VStatus NotificationStatus
  | VCondition AlertCondition
  | VList "string list"
  | VDict "(string \<times> json) list"

subsection \<open>Field declarations\<close>

datatype ftype =
    TBool | TInt | TStr | TDecimal | TDatetime
  | TNotificationStatus | TAlertCondition | TListStr | TDict

text \<open>
  What \<open>Field(...)\<close> gives a field for its default: none (the field is required),
  \<open>default=v\<close>, or \<open>default_factory=datetime.utcnow\<close>.
\<close>

datatype fdefault = Required | Default pyval | Utcnow

text \<open>
  One annotated attribute of a class: \<open>nullable\<close> is the \<open>Optional[...]\<close> of the
  annotation; \<open>max_length\<close>, \<open>decimal_places\<close> and \<open>max_digits\<close> are the keyword
  arguments of \<open>Field\<close> of the same names. The arguments \<open>primary_key\<close>, \<open>unique\<close>,
  \<open>index\<close>, \<open>foreign_key\<close> and \<open>sa_column\<close> concern the database only and are not
  kept, nor are the \<open>Relationship\<close> attributes, which are not columns.
\<close>

record field =
  fname :: string
  ftype :: ftype
  nullable :: bool
  default :: fdefault
  max_length :: "nat option"
  decimal_places :: "nat option"
  max_digits :: "nat option"

definition fld :: "string \<Rightarrow> ftype \<Rightarrow> field" where
  "fld n t = \<lparr>fname = n, ftype = t, nullable = False, default = Required,
              max_length = None, decimal_places = None, max_digits = None\<rparr>"

text \<open>\<open>x: Optional[T] = Field(default=None, ...)\<close>\<close>

definition opt :: "string \<Rightarrow> ftype \<Rightarrow> field" where
  "opt n t = (fld n t)\<lparr>nullable := True, default := Default VNone\<rparr>"

subsection \<open>Table classes\<close>

definition CoinPair :: "field list" where
  "CoinPair =
    [opt ''id'' TInt,
     (fld ''symbol'' TStr)\<lparr>max_length := Some 50\<rparr>,
     (fld ''base_asset'' TStr)\<lparr>max_length := Some 20\<rparr>,
     (fld ''quote_asset'' TStr)\<lparr>max_length := Some 20\<rparr>,
     (fld ''is_active'' TBool)\<lparr>default := Default (VBool True)\<rparr>,
     (fld ''created_at'' TDatetime)\<lparr>default := Utcnow\<rparr>,
     (fld ''updated_at'' TDatetime)\<lparr>default := Utcnow\<rparr>]"

definition RSIData :: "field list" where
  "RSIData =
    [opt ''id'' TInt,
     fld ''coin_pair_id'' TInt,
     (fld ''rsi_value'' TDecimal)\<lparr>decimal_places := Some 4, max_digits := Some 8\<rparr>,
     (fld ''price'' TDecimal)\<lparr>decimal_places := Some 8, max_digits := Some 20\<rparr>,
     (fld ''volume'' TDecimal)\<lparr>default := Default (VDecimal (dec 0 0)),
        decimal_places := Some 8, max_digits := Some 20\<rparr>,
     (fld ''timestamp'' TDatetime)\<lparr>default := Utcnow\<rparr>,
     (fld ''period'' TInt)\<lparr>default := Default (VInt 14)\<rparr>]"

definition User :: "field list" where
  "User =
    [opt ''id'' TInt,
     (fld ''username'' TStr)\<lparr>max_length := Some 50\<rparr>,
     (fld ''email'' TStr)\<lparr>max_length := Some 255\<rparr>,
     (fld ''is_active'' TBool)\<lparr>default := Default (VBool True)\<rparr>,
     (fld ''created_at'' TDatetime)\<lparr>default := Utcnow\<rparr>,
     (fld ''updated_at'' TDatetime)\<lparr>default := Utcnow\<rparr>]"

definition UserCoinPreference :: "field list" where
  "UserCoinPreference =
    [opt ''id'' TInt,
     fld ''user_id'' TInt,
     fld ''coin_pair_id'' TInt,
     (fld ''is_selected'' TBool)\<lparr>default := Default (VBool True)\<rparr>,
     (fld ''display_order'' TInt)\<lparr>default := Default (VInt 0)\<rparr>,
     (fld ''created_at'' TDatetime)\<lparr>default := Utcnow\<rparr>,
     (fld ''updated_at'' TDatetime)\<lparr>default := Utcnow\<rparr>]"

definition AlertSetting :: "field list" where
  "AlertSetting =
    [opt ''id'' TInt,
     fld ''user_id'' TInt,
     (fld ''name'' TStr)\<lparr>max_length := Some 100\<rparr>,
     fld ''condition'' TAlertCondition,
     (fld ''overbought_threshold'' TDecimal)\<lparr>default := Default (VDecimal (dec 7000 (- 2))),
        decimal_places := Some 2, max_digits := Some 5\<rparr>,
     (fld ''oversold_threshold'' TDecimal)\<lparr>default := Default (VDecimal (dec 3000 (- 2))),
        decimal_places := Some 2, max_digits := Some 5\<rparr>,
     (opt ''custom_threshold'' TDecimal)\<lparr>decimal_places := Some 2, max_digits := Some 5\<rparr>,
     (opt ''custom_operator'' TStr)\<lparr>max_length := Some 10\<rparr>,
     (fld ''is_enabled'' TBool)\<lparr>default := Default (VBool True)\<rparr>,
     (fld ''applies_to_all_pairs'' TBool)\<lparr>default := Default (VBool True)\<rparr>,
     (fld ''coin_pair_filters'' TListStr)\<lparr>default := Default (VList [])\<rparr>,
     (fld ''created_at'' TDatetime)\<lparr>default := Utcnow\<rparr>,
     (fld ''updated_at'' TDatetime)\<lparr>default := Utcnow\<rparr>]"

definition RSINotification :: "field list" where
  "RSINotification =
    [opt ''id'' TInt,
     fld ''user_id'' TInt,
     fld ''coin_pair_id'' TInt,
     fld ''alert_setting_id'' TInt,
     (fld ''title'' TStr)\<lparr>max_length := Some 200\<rparr>,
     (fld ''message'' TStr)\<lparr>max_length := Some 1000\<rparr>,
     (fld ''rsi_value'' TDecimal)\<lparr>decimal_places := Some 4, max_digits := Some 8\<rparr>,
     (fld ''price_at_alert'' TDecimal)\<lparr>decimal_places := Some 8, max_digits := Some 20\<rparr>,
     (fld ''status'' TNotificationStatus)\<lparr>default := Default (VStatus PENDING)\<rparr>,
     (fld ''created_at'' TDatetime)\<lparr>default := Utcnow\<rparr>,
     opt ''sent_at'' TDatetime,
     opt ''dismissed_at'' TDatetime]"

definition DashboardConfig :: "field list" where
  "DashboardConfig =
    [opt ''id'' TInt,
     (fld ''refresh_interval'' TInt)\<lparr>default := Default (VInt 5)\<rparr>,
     (fld ''default_rsi_period'' TInt)\<lparr>default := Default (VInt 14)\<rparr>,
     (fld ''max_historical_records'' TInt)\<lparr>default := Default (VInt 1000)\<rparr>,
     (fld ''display_settings'' TDict)\<lparr>default := Default (VDict
        [(''show_volume'', JBool True), (''show_price'', JBool True),
         (''show_timestamp'', JBool True), (''theme'', JStr ''light''),
         (''grid_columns'', JInt 4)])\<rparr>,
     (fld ''api_settings'' TDict)\<lparr>default := Default (VDict
        [(''base_url'', JStr ''https://fapi.binance.com''), (''rate_limit'', JInt 1200),
         (''timeout'', JInt 10)])\<rparr>,
     (fld ''created_at'' TDatetime)\<lparr>default := Utcnow\<rparr>,
     (fld ''updated_at'' TDatetime)\<lparr>default := Utcnow\<rparr>]"

subsection \<open>Create shapes\<close>

definition CoinPairCreate :: "field list" where
  "CoinPairCreate =
    [(fld ''symbol'' TStr)\<lparr>max_length := Some 50\<rparr>,
     (fld ''base_asset'' TStr)\<lparr>max_length := Some 20\<rparr>,
     (fld ''quote_asset'' TStr)\<lparr>max_length := Some 20\<rparr>,
     (fld ''is_active'' TBool)\<lparr>default := Default (VBool True)\<rparr>]"

definition RSIDataCreate :: "field list" where
  "RSIDataCreate =
    [fld ''coin_pair_id'' TInt,
     fld ''rsi_value'' TDecimal,
     fld ''price'' TDecimal,
     (fld ''volume'' TDecimal)\<lparr>default := Default (VDecimal (dec 0 0))\<rparr>,
     (fld ''period'' TInt)\<lparr>default := Default (VInt 14)\<rparr>]"

definition UserCreate :: "field list" where
  "UserCreate =
    [(fld ''username'' TStr)\<lparr>max_length := Some 50\<rparr>,
     (fld ''email'' TStr)\<lparr>max_length := Some 255\<rparr>]"

definition AlertSettingCreate :: "field list" where
  "AlertSettingCreate =
    [fld ''user_id'' TInt,
     (fld ''name'' TStr)\<lparr>max_length := Some 100\<rparr>,
     fld ''condition'' TAlertCondition,
     (fld ''overbought_threshold'' TDecimal)\<lparr>default := Default (VDecimal (dec 7000 (- 2))),
        decimal_places := Some 2, max_digits := Some 5\<rparr>,
     (fld ''oversold_threshold'' TDecimal)\<lparr>default := Default (VDecimal (dec 3000 (- 2))),
        decimal_places := Some 2, max_digits := Some 5\<rparr>,
     (opt ''custom_threshold'' TDecimal)\<lparr>decimal_places := Some 2, max_digits := Some 5\<rparr>,
     (opt ''custom_operator'' TStr)\<lparr>max_length := Some 10\<rparr>,
     (fld ''applies_to_all_pairs'' TBool)\<lparr>default := Default (VBool True)\<rparr>,
     (fld ''coin_pair_filters'' TListStr)\<lparr>default := Default (VList [])\<rparr>]"

definition UserCoinPreferenceCreate :: "field list" where
  "UserCoinPreferenceCreate =
    [fld ''user_id'' TInt,
     fld ''coin_pair_id'' TInt,
     (fld ''is_selected'' TBool)\<lparr>default := Default (VBool True)\<rparr>,
     (fld ''display_order'' TInt)\<lparr>default := Default (VInt 0)\<rparr>]"

definition NotificationCreate :: "field list" where
  "NotificationCreate =
    [fld ''user_id'' TInt,
     fld ''coin_pair_id'' TInt,
     fld ''alert_setting_id'' TInt,
     (fld ''title'' TStr)\<lparr>max_length := Some 200\<rparr>,
     (fld ''message'' TStr)\<lparr>max_length := Some 1000\<rparr>,
     fld ''rsi_value'' TDecimal,
     fld ''price_at_alert'' TDecimal]"

definition create_shapes :: "field list list" where
  "create_shapes =
    [CoinPairCreate, RSIDataCreate, UserCreate, AlertSettingCreate,
     UserCoinPreferenceCreate, NotificationCreate]"

subsection \<open>Update shapes\<close>

definition CoinPairUpdate :: "field list" where
  "CoinPairUpdate =
    [(opt ''symbol'' TStr)\<lparr>max_length := Some 50\<rparr>,
     (opt ''base_asset'' TStr)\<lparr>max_length := Some 20\<rparr>,
     (opt ''quote_asset'' TStr)\<lparr>max_length := Some 20\<rparr>,
     opt ''is_active'' TBool]"

definition UserUpdate :: "field list" where
  "UserUpdate =
    [(opt ''username'' TStr)\<lparr>max_length := Some 50\<rparr>,
     (opt ''email'' TStr)\<lparr>max_length := Some 255\<rparr>,
     opt ''is_active'' TBool]"

definition AlertSettingUpdate :: "field list" where
  "AlertSettingUpdate =
    [(opt ''name'' TStr)\<lparr>max_length := Some 100\<rparr>,
     opt ''condition'' TAlertCondition,
     (opt ''overbought_threshold'' TDecimal)\<lparr>decimal_places := Some 2, max_digits := Some 5\<rparr>,
     (opt ''oversold_threshold'' TDecimal)\<lparr>decimal_places := Some 2, max_digits := Some 5\<rparr>,
     (opt ''custom_threshold'' TDecimal)\<lparr>decimal_places := Some 2, max_digits := Some 5\<rparr>,
     (opt ''custom_operator'' TStr)\<lparr>max_length := Some 10\<rparr>,
     opt ''is_enabled'' TBool,
     opt ''applies_to_all_pairs'' TBool,
     opt ''coin_pair_filters'' TListStr]"

definition UserCoinPreferenceUpdate :: "field list" where
  "UserCoinPreferenceUpdate =
    [opt ''is_selected'' TBool,
     opt ''display_order'' TInt]"

definition DashboardConfigUpdate :: "field list" where
  "DashboardConfigUpdate =
    [opt ''refresh_interval'' TInt,
     opt ''default_rsi_period'' TInt,
     opt ''max_historical_records'' TInt,
     opt ''display_settings'' TDict,
     opt ''api_settings'' TDict]"

definition update_shapes :: "field list list" where
  "update_shapes =
    [CoinPairUpdate, UserUpdate, AlertSettingUpdate, UserCoinPreferenceUpdate,
     DashboardConfigUpdate]"

subsection \<open>Response shapes\<close>

definition RSIDataResponse :: "field list" where
  "RSIDataResponse =
    [fld ''id'' TInt,
     fld ''symbol'' TStr,
     fld ''rsi_value'' TStr,
     fld ''price'' TStr,
     fld ''volume'' TStr,
     fld ''timestamp'' TStr,
     fld ''period'' TInt]"

definition CoinPairResponse :: "field list" where
  "CoinPairResponse =
    [fld ''id'' TInt,
     fld ''symbol'' TStr,
     fld ''base_asset'' TStr,
     fld ''quote_asset'' TStr,
     fld ''is_active'' TBool,
     fld ''created_at'' TStr,
     opt ''latest_rsi'' TStr]"

definition NotificationResponse :: "field list" where
  "NotificationResponse =
    [fld ''id'' TInt,
     fld ''title'' TStr,
     fld ''message'' TStr,
     fld ''symbol'' TStr,
     fld ''rsi_value'' TStr,
     fld ''price_at_alert'' TStr,
     fld ''status'' TNotificationStatus,
     fld ''created_at'' TStr]"

section \<open>Building objects from the declarations\<close>

subsection \<open>Validation errors\<close>

text \<open>
  A validation error names the field and the constraint that failed. The library
  collects the errors of all fields; the model reports the first one in declaration
  order, which is enough to tell acceptance from rejection.
\<close>

datatype constraint =
    Missing
  | NoneNotAllowed
  | TypeMismatch
  | MaxLength nat
  | MaxDigits nat
  | DecimalPlaces nat
  | WholeDigits nat
  | EnumMember

datatype error = ValidationError string constraint

subsection \<open>Decimal digit counts\<close>

text \<open>The number of decimal digits of the coefficient (\<open>len(digit_tuple)\<close>).\<close>

fun ndigits :: "nat \<Rightarrow> nat" where
  "ndigits n = (if n < 10 then 1 else Suc (ndigits (n div 10)))"

declare ndigits.simps [simp del]

text \<open>
  The two counts the constraints \<open>max_digits\<close> and \<open>decimal_places\<close> are compared
  with: the total number of digits and the number of digits after the point. A
  non-negative exponent adds trailing zeros before the point; a negative exponent
  larger than the coefficient is long adds leading zeros after the point.
\<close>

definition total_digits :: "Decimal \<Rightarrow> nat" where
  "total_digits d =
     (if 0 \<le> exponent d then ndigits (coefficient d) + nat (exponent d)
      else if ndigits (coefficient d) < nat (- exponent d) then nat (- exponent d)
      else ndigits (coefficient d))"

definition decimals :: "Decimal \<Rightarrow> nat" where
  "decimals d = (if 0 \<le> exponent d then 0 else nat (- exponent d))"

text \<open>
  \<open>Decimal.normalize()\<close> in the default context (precision 28, rounding half-even,
  exponents from -999999 to 999999, overflow trapped): the value is first rounded to
  the precision of the context, then trailing zeros of the coefficient are moved into
  the exponent; every zero becomes coefficient 0, exponent 0.
\<close>

definition context_prec :: nat where
  "context_prec = 28"

definition context_Emax :: int where
  "context_Emax = 999999"

definition context_Etiny :: int where
  "context_Etiny = - 999999 - int context_prec + 1"

definition context_Etop :: int where
  "context_Etop = context_Emax - int context_prec + 1"

text \<open>
  The coefficient \<open>c\<close> without its last \<open>k\<close> digits, rounded half-even on what is cut
  off.
\<close>

definition round_half_even :: "nat \<Rightarrow> nat \<Rightarrow> nat" where
  "round_half_even c k =
     (let q = c div 10 ^ k; r = c mod 10 ^ k
      in if 10 ^ k < 2 * r \<or> (2 * r = 10 ^ k \<and> odd q) then q + 1 else q)"

text \<open>
  The rounding of a value to the context; \<open>None\<close> is the \<open>Overflow\<close> exception of a
  value above the largest exponent.
\<close>

definition fix_decimal :: "Decimal \<Rightarrow> Decimal option" where
  "fix_decimal d =
     (if coefficient d = 0
        then Some (d\<lparr>exponent := min (max (exponent d) context_Etiny) context_Emax\<rparr>)
      else
        let exp_min0 = int (ndigits (coefficient d)) + exponent d - int context_prec in
        if context_Etop < exp_min0 then None
        else
          let exp_min = max exp_min0 context_Etiny in
          if exponent d < exp_min then
            let q = round_half_even (coefficient d) (nat (exp_min - exponent d)) in
            if context_prec < ndigits q then
              (if context_Etop < exp_min + 1 then None
               else Some (d\<lparr>coefficient := q div 10, exponent := exp_min + 1\<rparr>))
            else Some (d\<lparr>coefficient := q, exponent := exp_min\<rparr>)
          else Some d)"

function strip_zeros :: "nat \<Rightarrow> int \<Rightarrow> nat \<times> int" where
  "strip_zeros c e =
     (if c \<noteq> 0 \<and> c mod 10 = 0 \<and> e < context_Emax then strip_zeros (c div 10) (e + 1)
      else (c, e))"
  by pat_completeness auto
termination
  by (relation "measure (\<lambda>(c, e). c)") auto

declare strip_zeros.simps [simp del]

text \<open>
  The normal form the validator compares with: when \<open>normalize\<close> raises, the validator
  goes on with the value as it is written.
\<close>

definition decimal_normalize :: "Decimal \<Rightarrow> Decimal" where
  "decimal_normalize d =
     (case fix_decimal d of
        None \<Rightarrow> d
      | Some a \<Rightarrow>
          if coefficient a = 0 then a\<lparr>exponent := 0\<rparr>
          else a\<lparr>coefficient := fst (strip_zeros (coefficient a) (exponent a)),
                 exponent := snd (strip_zeros (coefficient a) (exponent a))\<rparr>)"

definition exceeds :: "nat option \<Rightarrow> nat \<Rightarrow> bool" where
  "exceeds limit n = (case limit of None \<Rightarrow> False | Some m \<Rightarrow> m < n)"

definition whole_limit :: "field \<Rightarrow> nat option" where
  "whole_limit f =
     (case (max_digits f, decimal_places f) of
        (Some m, Some p) \<Rightarrow> Some (m - p)
      | _ \<Rightarrow> None)"

text \<open>
  The check of a decimal against \<open>max_digits\<close> and \<open>decimal_places\<close>. A count
  violates its limit only when it exceeds the limit both as the value is written and
  in normal form, so trailing zeros are not held against a value (70.000 passes a
  scale of 2). With both limits declared, the digits before the point, counted as
  written, must not exceed the difference of the limits.
\<close>

definition check_decimal :: "field \<Rightarrow> Decimal \<Rightarrow> error + pyval" where
  "check_decimal f d =
     (if exceeds (max_digits f) (total_digits d) \<and>
         exceeds (max_digits f) (total_digits (decimal_normalize d))
        then Inl (ValidationError (fname f) (MaxDigits (the (max_digits f))))
      else if exceeds (decimal_places f) (decimals d) \<and>
              exceeds (decimal_places f) (decimals (decimal_normalize d))
        then Inl (ValidationError (fname f) (DecimalPlaces (the (decimal_places f))))
      else if exceeds (whole_limit f) (total_digits d - decimals d)
        then Inl (ValidationError (fname f) (WholeDigits (the (whole_limit f))))
      else Inr (VDecimal d))"

definition check_str :: "field \<Rightarrow> string \<Rightarrow> error + pyval" where
  "check_str f s =
     (if exceeds (max_length f) (length s)
        then Inl (ValidationError (fname f) (MaxLength (the (max_length f))))
      else Inr (VStr s))"

subsection \<open>One field\<close>

text \<open>The type a value is an instance of; \<open>None\<close> has none of the field types.\<close>

fun type_of :: "pyval \<Rightarrow> ftype option" where
  "type_of VNone = None"
| "type_of (VBool b) = Some TBool"
| "type_of (VInt i) = Some TInt"
| "type_of (VStr s) = Some TStr"
| "type_of (VDecimal d) = Some TDecimal"
| "type_of (VDatetime t) = Some TDatetime"
| "type_of (VStatus c) = Some TNotificationStatus"
| "type_of (VCondition c) = Some TAlertCondition"
| "type_of (VList xs) = Some TListStr"
| "type_of (VDict kvs) = Some TDict"

text \<open>A value that is an instance of the annotated type.\<close>

definition has_type :: "ftype \<Rightarrow> pyval \<Rightarrow> bool" where
  "has_type t v = (type_of v = Some t)"

text \<open>The declared constraints on a value of the annotated type.\<close>

fun check_constraints :: "field \<Rightarrow> pyval \<Rightarrow> error + pyval" where
  "check_constraints f (VStr s) = check_str f s"
| "check_constraints f (VDecimal d) = check_decimal f d"
| "check_constraints f v = Inr v"

text \<open>
  A value given to a field of enumeration type that is not a member of it: the
  members are strings, and a string is looked up among the members' values; this
  includes a member of the other enumeration, which is read as its value. Every other
  value is no member.
\<close>

fun enum_key :: "pyval \<Rightarrow> string option" where
  "enum_key (VStr s) = Some s"
| "enum_key (VStatus c) = Some (NotificationStatus_value c)"
| "enum_key (VCondition c) = Some (AlertCondition_value c)"
| "enum_key v = None"

definition check_enum :: "field \<Rightarrow> pyval \<Rightarrow> error + pyval" where
  "check_enum f v =
     (case enum_key v of
        None \<Rightarrow> Inl (ValidationError (fname f) EnumMember)
      | Some s \<Rightarrow>
          if ftype f = TAlertCondition then
            (case AlertCondition_of s of
               Some c \<Rightarrow> Inr (VCondition c)
             | None \<Rightarrow> Inl (ValidationError (fname f) EnumMember))
          else
            (case NotificationStatus_of s of
               Some c \<Rightarrow> Inr (VStatus c)
             | None \<Rightarrow> Inl (ValidationError (fname f) EnumMember)))"

text \<open>
  The value of a field given in the input. \<open>None\<close> is accepted exactly by an
  \<open>Optional\<close> annotation. A value of the annotated type is kept as it is and checked
  against the declared constraints. A field of enumeration type takes a member or the
  string that is a member's value. For every other value the classes validate in the
  library's default lax mode, which coerces where it can (the string 14 to the
  integer 14, the integer 1 to the boolean true, a string or an integer to a decimal):
  \<open>lax t v\<close> is what the library makes of the value \<open>v\<close> for the annotated type \<open>t\<close>,
  \<open>None\<close> when it refuses the value. The library's readings are a parameter of the
  model, and nothing is assumed of them; what is coerced must be of the annotated
  type and is checked against the declared constraints like a given value.
\<close>

definition check_value ::
  "(ftype \<Rightarrow> pyval \<Rightarrow> pyval option) \<Rightarrow> field \<Rightarrow> pyval \<Rightarrow> error + pyval" where
  "check_value lax f v =
     (if v = VNone then
        (if nullable f then Inr VNone else Inl (ValidationError (fname f) NoneNotAllowed))
      else if has_type (ftype f) v then check_constraints f v
      else if ftype f = TAlertCondition \<or> ftype f = TNotificationStatus then check_enum f v
      else
        (case lax (ftype f) v of
           None \<Rightarrow> Inl (ValidationError (fname f) TypeMismatch)
         | Some w \<Rightarrow>
             if has_type (ftype f) w then check_constraints f w
             else Inl (ValidationError (fname f) TypeMismatch)))"

text \<open>
  The value of a field of a plain class: the checked input value when the input has
  the field, the declared default when it has not, an error when there is neither. No
  plain class of the module uses \<open>default_factory\<close>; the clock is passed for
  completeness.
\<close>

definition field_value ::
  "(ftype \<Rightarrow> pyval \<Rightarrow> pyval option) \<Rightarrow> datetime \<Rightarrow> field \<Rightarrow> pyval option \<Rightarrow> error + pyval" where
  "field_value lax now f given =
     (case given of
        Some v \<Rightarrow> check_value lax f v
      | None \<Rightarrow>
          (case default f of
             Required \<Rightarrow> Inl (ValidationError (fname f) Missing)
           | Default v \<Rightarrow> Inr v
           | Utcnow \<Rightarrow> Inr (VDatetime now)))"

subsection \<open>Plain classes: validated construction\<close>

text \<open>
  \<open>Shape(**input)\<close> for a class declared with \<open>table=False\<close>: every declared field
  is checked or defaulted; input keys that are no field of the class are ignored. The
  object is the map from field names to values.
\<close>

fun model_validate ::
  "(ftype \<Rightarrow> pyval \<Rightarrow> pyval option) \<Rightarrow> datetime \<Rightarrow> field list \<Rightarrow> (string \<rightharpoonup> pyval) \<Rightarrow>
     error + (string \<rightharpoonup> pyval)" where
  "model_validate lax now [] inp = Inr Map.empty"
| "model_validate lax now (f # fs) inp =
     (case field_value lax now f (inp (fname f)) of
        Inl e \<Rightarrow> Inl e
      | Inr v \<Rightarrow>
          (case model_validate lax now fs inp of
             Inl e \<Rightarrow> Inl e
           | Inr obj \<Rightarrow> Inr (obj(fname f \<mapsto> v))))"

text \<open>
  The specification's \<open>validate_create\<close> acts at input-shape construction time: it is
  the construction of the create shape from the input.
\<close>

definition validate_create ::
  "(ftype \<Rightarrow> pyval \<Rightarrow> pyval option) \<Rightarrow> datetime \<Rightarrow> field list \<Rightarrow> (string \<rightharpoonup> pyval) \<Rightarrow>
     error + (string \<rightharpoonup> pyval)" where
  "validate_create lax now shape inp = model_validate lax now shape inp"

text \<open>
  The specification's \<open>validate_update\<close>: the update shape is constructed from the
  input, and the partial entity holds the fields the input supplied
  (the object's \<open>dict(exclude_unset=True)\<close>).
\<close>

definition validate_update ::
  "(ftype \<Rightarrow> pyval \<Rightarrow> pyval option) \<Rightarrow> datetime \<Rightarrow> field list \<Rightarrow> (string \<rightharpoonup> pyval) \<Rightarrow>
     error + (string \<rightharpoonup> pyval)" where
  "validate_update lax now shape inp =
     (case model_validate lax now shape inp of
        Inl e \<Rightarrow> Inl e
      | Inr obj \<Rightarrow> Inr (obj |` dom inp))"

subsection \<open>Table classes: construction\<close>

text \<open>
  \<open>Table(**kwargs)\<close> for a class declared with \<open>table=True\<close>: the keyword values are
  stored as given (a table class does not run the field validators when it is built),
  an attribute that is not given takes its declared default, and a required attribute
  that is not given stays unset.
\<close>

fun table_init :: "datetime \<Rightarrow> field list \<Rightarrow> (string \<rightharpoonup> pyval) \<Rightarrow> (string \<rightharpoonup> pyval)" where
  "table_init now [] kwargs = Map.empty"
| "table_init now (f # fs) kwargs =
     (let row = table_init now fs kwargs in
      case kwargs (fname f) of
        Some v \<Rightarrow> row(fname f \<mapsto> v)
      | None \<Rightarrow>
          (case default f of
             Required \<Rightarrow> row
           | Default v \<Rightarrow> row(fname f \<mapsto> v)
           | Utcnow \<Rightarrow> row(fname f \<mapsto> VDatetime now)))"

section \<open>Responses, updates and the notification status\<close>

subsection \<open>Text forms of decimals and timestamps\<close>

text \<open>
  The response classes declare their decimal fields as \<open>str\<close> ("Decimal serialized as
  string") and their timestamps as \<open>str\<close> ("ISO format datetime"). The text forms are
  Python's: \<open>str(d)\<close> of a \<open>Decimal\<close> and \<open>t.isoformat()\<close> of a \<open>datetime\<close>.
\<close>

definition digit_char :: "nat \<Rightarrow> char" where
  "digit_char n = ''0123456789'' ! n"

fun str_nat :: "nat \<Rightarrow> string" where
  "str_nat n = (if n < 10 then [digit_char n] else str_nat (n div 10) @ [digit_char (n mod 10)])"

declare str_nat.simps [simp del]

text \<open>\<open>"%+d" % i\<close>\<close>

definition str_signed :: "int \<Rightarrow> string" where
  "str_signed i = (if i < 0 then CHR ''-'' # str_nat (nat (- i)) else CHR ''+'' # str_nat (nat i))"

text \<open>
  \<open>Decimal.__str__\<close>: plain notation when the exponent is at most 0 and the number has
  more than -6 digits left of the point, scientific notation with one digit left of
  the point otherwise.
\<close>

definition decimal_str :: "Decimal \<Rightarrow> string" where
  "decimal_str d =
     (let ds = str_nat (coefficient d);
          n = int (length ds);
          leftdigits = exponent d + n;
          dotplace = (if exponent d \<le> 0 \<and> - 6 < leftdigits then leftdigits else 1);
          intpart =
            (if dotplace \<le> 0 then ''0''
             else if n \<le> dotplace then ds @ replicate (nat (dotplace - n)) (CHR ''0'')
             else take (nat dotplace) ds);
          fracpart =
            (if dotplace \<le> 0 then CHR ''.'' # replicate (nat (- dotplace)) (CHR ''0'') @ ds
             else if n \<le> dotplace then []
             else CHR ''.'' # drop (nat dotplace) ds);
          exp = (if leftdigits = dotplace then []
                 else CHR ''E'' # str_signed (leftdigits - dotplace))
      in (if negative d then ''-'' else []) @ intpart @ fracpart @ exp)"



subsection \<open>Projection to a response shape\<close>



subsection \<open>Applying an update\<close>

text \<open>
  Modelled from the spec: the module declares the update classes but no function that
  applies one. "Only supplied fields are considered for mutation; absent fields must
  not overwrite existing values": the stored entity takes the value of every field of
  the partial entity and keeps all its other attributes.
\<close>

definition apply_update :: "(string \<rightharpoonup> pyval) \<Rightarrow> (string \<rightharpoonup> pyval) \<Rightarrow> (string \<rightharpoonup> pyval)" where
  "apply_update stored partial = stored ++ partial"

subsection \<open>Notification status\<close>

text \<open>
  Modelled from the spec: the module declares the status enumeration and the default
  \<open>PENDING\<close> of the column but no code that changes a status. "Notification status
  transitions are monotonic: pending \<rightarrow> sent or pending \<rightarrow> dismissed; no transition
  back to pending."
\<close>

fun permitted :: "NotificationStatus \<Rightarrow> NotificationStatus \<Rightarrow> bool" where
  "permitted PENDING SENT = True"
| "permitted PENDING DISMISSED = True"
| "permitted _ _ = False"

text \<open>
  A status update on a stored notification: the new status is written when the
  transition from the current one is permitted, and refused otherwise.
\<close>

definition set_status :: "NotificationStatus \<Rightarrow> NotificationStatus \<Rightarrow> NotificationStatus option" where
  "set_status current new = (if permitted current new then Some new else None)"

text \<open>
  A sequence of status updates, each applied to the result of the one before; the
  result is the list of statuses the notification went through, or \<open>None\<close> when an
  update was refused.
\<close>

fun status_updates :: "NotificationStatus \<Rightarrow> NotificationStatus list \<Rightarrow> NotificationStatus list option" where
  "status_updates current [] = Some []"
| "status_updates current (new # rest) =
     (case set_status current new of
        None \<Rightarrow> None
      | Some s \<Rightarrow> map_option ((#) s) (status_updates s rest))"

subsection \<open>Storing an entity\<close>


subsection \<open>Reading a declaration\<close>

text \<open>The declaration of the field of a given name in a class.\<close>

definition field_of :: "field list \<Rightarrow> string \<Rightarrow> field option" where
  "field_of shape n = find (\<lambda>f. fname f = n) shape"

text \<open>A fixed clock reading for concrete examples: 2024-01-01T00:00:00.\<close>

definition new_year :: datetime where
  "new_year = \<lparr>year = 2024, month = 1, day = 1, hour = 0, minute = 0, second = 0,
                microsecond = 0\<rparr>"

subsection \<open>Reading a decimal text back\<close>




subsection \<open>Entities with a create shape and a response shape\<close>


section \<open>Properties of validated construction\<close>

lemma model_validate_Cons_Inr:
  "model_validate lax now (g # gs) inp = Inr obj \<Longrightarrow>
     \<exists>v rest. field_value lax now g (inp (fname g)) = Inr v \<and>
       model_validate lax now gs inp = Inr rest \<and>
       (\<forall>k. obj k = (if k = fname g then Some v else rest k))"
  by (auto split: sum.splits)

lemma model_validate_reject:
  "f \<in> set fs \<Longrightarrow> field_value lax now f (inp (fname f)) = Inl e
     \<Longrightarrow> \<exists>e'. model_validate lax now fs inp = Inl e'"
  by (induction fs) (auto split: sum.splits)

lemma model_validate_lookup:
  "model_validate lax now fs inp = Inr obj \<Longrightarrow> distinct (map fname fs) \<Longrightarrow> f \<in> set fs
     \<Longrightarrow> field_value lax now f (inp (fname f)) = Inr v \<Longrightarrow> obj (fname f) = Some v"
proof (induction fs arbitrary: obj)
  case Nil
  then show ?case by simp
next
  case (Cons g gs)
  from Cons.prems(1) obtain w rest where
    w: "field_value lax now g (inp (fname g)) = Inr w" and
    rest: "model_validate lax now gs inp = Inr rest" and
    obj: "\<And>k. obj k = (if k = fname g then Some w else rest k)"
    using model_validate_Cons_Inr by blast
  show ?case
  proof (cases "f = g")
    case True
    with w Cons.prems(4) obj show ?thesis by simp
  next
    case False
    with Cons.prems(3) have fin: "f \<in> set gs" by simp
    from Cons.prems(2) have "fname g \<notin> fname ` set gs" by simp
    with fin have ne: "fname f \<noteq> fname g" by (metis image_eqI)
    from Cons.prems(2) have "distinct (map fname gs)" by simp
    from Cons.IH[OF rest this fin Cons.prems(4)] ne obj show ?thesis by simp
  qed
qed

lemma model_validate_field_ok:
  "model_validate lax now fs inp = Inr obj \<Longrightarrow> f \<in> set fs
     \<Longrightarrow> \<exists>v. field_value lax now f (inp (fname f)) = Inr v"
proof (induction fs arbitrary: obj)
  case Nil
  then show ?case by simp
next
  case (Cons g gs)
  from Cons.prems(1) obtain w rest where
    w: "field_value lax now g (inp (fname g)) = Inr w" and
    rest: "model_validate lax now gs inp = Inr rest"
    using model_validate_Cons_Inr by blast
  show ?case
  proof (cases "f = g")
    case True
    with w show ?thesis by blast
  next
    case False
    with Cons.prems(2) have "f \<in> set gs" by simp
    from Cons.IH[OF rest this] show ?thesis .
  qed
qed

lemma model_validate_dom:
  "model_validate lax now fs inp = Inr obj \<Longrightarrow> dom obj = fname ` set fs"
proof (induction fs arbitrary: obj)
  case Nil
  then show ?case by simp
next
  case (Cons g gs)
  from Cons.prems(1) obtain w rest where
    rest: "model_validate lax now gs inp = Inr rest" and
    obj: "\<And>k. obj k = (if k = fname g then Some w else rest k)"
    using model_validate_Cons_Inr by blast
  from Cons.IH[OF rest] have "dom rest = fname ` set gs" .
  moreover have "dom obj = insert (fname g) (dom rest)"
    by (auto simp: dom_def obj)
  ultimately show ?case by simp
qed

lemma model_validate_accept:
  "(\<And>f. f \<in> set fs \<Longrightarrow> \<exists>v. field_value lax now f (inp (fname f)) = Inr v)
     \<Longrightarrow> \<exists>obj. model_validate lax now fs inp = Inr obj"
proof (induction fs)
  case Nil
  then show ?case by simp
next
  case (Cons g gs)
  then obtain obj where "model_validate lax now gs inp = Inr obj" by auto
  moreover obtain v where "field_value lax now g (inp (fname g)) = Inr v"
    using Cons.prems[of g] by auto
  ultimately show ?case by simp
qed

lemma model_validate_value:
  assumes "model_validate lax now fs inp = Inr obj" "distinct (map fname fs)" "f \<in> set fs"
  shows "field_value lax now f (inp (fname f)) = Inr (the (obj (fname f)))"
    and "obj (fname f) \<noteq> None"
proof -
  from model_validate_field_ok[OF assms(1,3)] obtain v where
    v: "field_value lax now f (inp (fname f)) = Inr v" by blast
  from model_validate_lookup[OF assms v] have "obj (fname f) = Some v" .
  with v show "field_value lax now f (inp (fname f)) = Inr (the (obj (fname f)))"
    and "obj (fname f) \<noteq> None" by simp_all
qed

lemmas shape_defs =
  CoinPairCreate_def RSIDataCreate_def UserCreate_def AlertSettingCreate_def
  UserCoinPreferenceCreate_def NotificationCreate_def
  CoinPairUpdate_def UserUpdate_def AlertSettingUpdate_def UserCoinPreferenceUpdate_def
  DashboardConfigUpdate_def
  RSIDataResponse_def CoinPairResponse_def NotificationResponse_def
  CoinPair_def RSIData_def User_def UserCoinPreference_def AlertSetting_def
  RSINotification_def DashboardConfig_def

lemma create_shapes_distinct:
  "shape \<in> set create_shapes \<Longrightarrow> distinct (map fname shape)"
  unfolding create_shapes_def
  by (auto simp: shape_defs fld_def opt_def)

lemma update_shapes_distinct:
  "shape \<in> set update_shapes \<Longrightarrow> distinct (map fname shape)"
  unfolding update_shapes_def
  by (auto simp: shape_defs fld_def opt_def)

lemma table_init_given:
  "kwargs k = Some v \<Longrightarrow> k \<in> fname ` set table \<Longrightarrow> table_init now table kwargs k = Some v"
  by (induction table) (auto simp: Let_def split: option.splits fdefault.splits)

lemma table_init_default:
  "kwargs (fname f) = None \<Longrightarrow> distinct (map fname table) \<Longrightarrow> f \<in> set table
    \<Longrightarrow> table_init now table kwargs (fname f) =
        (case default f of Required \<Rightarrow> None | Default v \<Rightarrow> Some v
         | Utcnow \<Rightarrow> Some (VDatetime now))"
proof (induction table)
  case Nil
  then show ?case by simp
next
  case (Cons g gs)
  show ?case
  proof (cases "f = g")
    case True
    from Cons.prems(2) have "fname g \<notin> fname ` set gs" by simp
    then have "table_init now gs kwargs (fname g) = None"
      by (induction gs) (auto simp: Let_def split: option.splits fdefault.splits)
    with True Cons.prems(1) show ?thesis
      by (auto simp: Let_def split: option.splits fdefault.splits)
  next
    case False
    with Cons.prems(3) have fin: "f \<in> set gs" by simp
    from Cons.prems(2) have "fname g \<notin> fname ` set gs" by simp
    with fin have ne: "fname f \<noteq> fname g" by (metis image_eqI)
    from Cons.prems(2) have "distinct (map fname gs)" by simp
    from Cons.IH[OF Cons.prems(1) this fin] ne show ?thesis
      by (auto simp: Let_def split: option.splits fdefault.splits)
  qed
qed

lemma replicate_numeral: "replicate (numeral v) x = x # replicate (pred_numeral v) x"
  by (simp add: numeral_eq_Suc)

lemmas validate_eval =
  validate_create_def validate_update_def field_value_def check_value_def has_type_def
  check_str_def check_decimal_def check_enum_def exceeds_def whole_limit_def

lemmas normalize_eval =
  decimal_normalize_def fix_decimal_def context_prec_def context_Emax_def context_Etiny_def
  context_Etop_def round_half_even_def Let_def dec_def ndigits.simps strip_zeros.simps

lemmas decimal_str_eval =
  decimal_str_def str_nat.simps digit_char_def dec_def Let_def str_signed_def replicate_numeral

lemma tables_distinct:
  "distinct (map fname CoinPair)" "distinct (map fname RSIData)"
  "distinct (map fname RSINotification)" "distinct (map fname AlertSetting)"
  by (simp_all add: shape_defs fld_def opt_def)

lemma create_shapes_no_factory:
  "shape \<in> set create_shapes \<Longrightarrow> f \<in> set shape \<Longrightarrow> default f \<noteq> Utcnow"
  unfolding create_shapes_def
  by (auto simp: shape_defs fld_def opt_def)

lemma validate_create_omitted:
  assumes "validate_create lax now shape inp = Inr obj" and "distinct (map fname shape)"
    and "f \<in> set shape" and "default f = Default d" and "inp (fname f) = None"
  shows "obj (fname f) = Some d"
proof -
  have "field_value lax now f (inp (fname f)) = Inr d"
    using assms(4,5) by (simp add: field_value_def)
  from model_validate_lookup[where f = f and inp = inp, OF _ assms(2,3) this] assms(1)
  show ?thesis by (simp add: validate_create_def)
qed

lemma validate_create_dom:
  "validate_create lax now shape inp = Inr obj \<Longrightarrow> dom obj = fname ` set shape"
  by (simp add: validate_create_def model_validate_dom)

lemma AlertCondition_of_iff:
  "AlertCondition_of s \<noteq> None \<longleftrightarrow> s \<in> {''overbought'', ''oversold'', ''custom''}"
  by (simp add: AlertCondition_of_def AlertCondition_members_def)

lemma NotificationStatus_of_iff:
  "NotificationStatus_of s \<noteq> None \<longleftrightarrow> s \<in> {''pending'', ''sent'', ''dismissed''}"
  by (simp add: NotificationStatus_of_def NotificationStatus_members_def)





lemma other_enum_no_member:
  "AlertCondition_of (NotificationStatus_value c) = None"
  "NotificationStatus_of (AlertCondition_value c') = None"
  by (cases c; simp add: AlertCondition_of_def AlertCondition_members_def)
     (cases c'; simp add: NotificationStatus_of_def NotificationStatus_members_def)

lemma check_value_condition:
  assumes "ftype f = TAlertCondition"
  shows "(\<exists>v'. check_value lax f v = Inr v') \<longleftrightarrow>
     v \<in> VStr ` {''overbought'', ''oversold'', ''custom''} \<union> range VCondition \<union>
         (if nullable f then {VNone} else {})"
proof (cases v)
  case (VStr s)
  then show ?thesis
    using assms AlertCondition_of_iff[of s]
    by (auto simp: check_value_def has_type_def check_enum_def split: option.splits)
next
  case (VStatus c)
  then show ?thesis
    using assms other_enum_no_member(1)[of c]
    by (auto simp: check_value_def has_type_def check_enum_def)
qed (use assms in \<open>auto simp: check_value_def has_type_def check_enum_def\<close>)

lemma check_value_status:
  assumes "ftype f = TNotificationStatus"
  shows "(\<exists>v'. check_value lax f v = Inr v') \<longleftrightarrow>
     v \<in> VStr ` {''pending'', ''sent'', ''dismissed''} \<union> range VStatus \<union>
         (if nullable f then {VNone} else {})"
proof (cases v)
  case (VStr s)
  then show ?thesis
    using assms NotificationStatus_of_iff[of s]
    by (auto simp: check_value_def has_type_def check_enum_def split: option.splits)
next
  case (VCondition c)
  then show ?thesis
    using assms other_enum_no_member(2)[of c]
    by (auto simp: check_value_def has_type_def check_enum_def)
qed (use assms in \<open>auto simp: check_value_def has_type_def check_enum_def\<close>)

lemma check_value_bad_condition:
  assumes "ftype f = TAlertCondition" and "s \<notin> {''overbought'', ''oversold'', ''custom''}"
  shows "check_value lax f (VStr s) = Inl (ValidationError (fname f) EnumMember)"
proof -
  from assms(2) AlertCondition_of_iff[of s] have "AlertCondition_of s = None" by blast
  with assms(1) show ?thesis by (simp add: check_value_def has_type_def check_enum_def)
qed

lemma check_value_str:
  "ftype f = TStr \<Longrightarrow> check_value lax f (VStr s) = check_str f s"
  by (simp add: check_value_def has_type_def)

lemma check_value_decimal:
  "ftype f = TDecimal \<Longrightarrow> check_value lax f (VDecimal d) = check_decimal f d"
  by (simp add: check_value_def has_type_def)

lemma no_status_field:
  "shape \<in> set (create_shapes @ update_shapes) \<Longrightarrow> f \<in> set shape
     \<Longrightarrow> ftype f \<noteq> TNotificationStatus"
  unfolding create_shapes_def update_shapes_def
  by (auto simp: shape_defs fld_def opt_def)

lemma ndigits_bound: "n < 10 ^ ndigits n"
proof (induction n rule: ndigits.induct)
  case (1 n)
  show ?case
  proof (cases "n < 10")
    case True
    then show ?thesis by (simp add: ndigits.simps)
  next
    case False
    with 1 have "n div 10 < 10 ^ ndigits (n div 10)" by simp
    then have "n < 10 * 10 ^ ndigits (n div 10)" by simp
    with False show ?thesis by (simp add: ndigits.simps[of n])
  qed
qed

lemma decimal_value_bound:
  assumes "total_digits d - decimals d \<le> w"
  shows "\<bar>decimal_value d\<bar> < 10 ^ w"
proof -
  let ?c = "coefficient d" and ?n = "ndigits (coefficient d)"
  have c: "(of_nat ?c :: rat) < 10 ^ ?n"
    using ndigits_bound[of ?c] by (metis of_nat_less_iff of_nat_numeral of_nat_power)
  show ?thesis
  proof (cases "0 \<le> exponent d")
    case True
    let ?e = "nat (exponent d)"
    from True assms have le: "?n + ?e \<le> w" by (simp add: total_digits_def decimals_def)
    have "\<bar>decimal_value d\<bar> = of_nat ?c * 10 ^ ?e"
      using True by (simp add: decimal_value_def abs_mult)
    also have "\<dots> < 10 ^ ?n * 10 ^ ?e" using c by simp
    also have "\<dots> = 10 ^ (?n + ?e)" by (simp add: power_add)
    also have "\<dots> \<le> 10 ^ w" using le by (simp add: power_increasing)
    finally show ?thesis .
  next
    case False
    let ?k = "nat (- exponent d)"
    have v: "\<bar>decimal_value d\<bar> = of_nat ?c / 10 ^ ?k"
      using False by (simp add: decimal_value_def abs_mult)
    show ?thesis
    proof (cases "?n < ?k")
      case True
      from True have "(10::rat) ^ ?n \<le> 10 ^ ?k" by (simp add: power_increasing)
      with c have "(of_nat ?c :: rat) < 10 ^ ?k" by (rule less_le_trans)
      then have "\<bar>decimal_value d\<bar> < 1" by (simp add: v)
      also have "(1::rat) \<le> 10 ^ w" by simp
      finally show ?thesis .
    next
      case ge: False
      with False assms have le: "?n - ?k \<le> w"
        by (simp add: total_digits_def decimals_def)
      have "\<bar>decimal_value d\<bar> < 10 ^ ?n / 10 ^ ?k"
        using c by (simp add: v divide_strict_right_mono)
      also have "\<dots> = 10 ^ (?n - ?k)" using ge by (simp add: power_diff)
      also have "\<dots> \<le> 10 ^ w" using le by (simp add: power_increasing)
      finally show ?thesis .
    qed
  qed
qed

lemma check_decimal_whole:
  assumes "check_decimal f d = Inr v" and "decimal_places f = Some p" and "max_digits f = Some m"
  shows "v = VDecimal d \<and> total_digits d - decimals d \<le> m - p \<and>
         (total_digits d \<le> m \<or> total_digits (decimal_normalize d) \<le> m) \<and>
         (decimals d \<le> p \<or> decimals (decimal_normalize d) \<le> p)"
  using assms
  by (auto simp: check_decimal_def exceeds_def whole_limit_def split: if_splits)

lemma check_decimal_fits:
  assumes "decimal_places f = Some p" and "max_digits f = Some m"
    and "total_digits d \<le> m" and "decimals d \<le> p" and "total_digits d - decimals d \<le> m - p"
  shows "check_decimal f d = Inr (VDecimal d)"
  using assms by (simp add: check_decimal_def exceeds_def whole_limit_def)

lemma no_way_back: "\<not> permitted s PENDING"
  by (cases s) simp_all

lemma status_updates_trace:
  "status_updates s news = Some trace \<Longrightarrow> trace = news \<and> PENDING \<notin> set trace"
proof (induction news arbitrary: s trace)
  case Nil
  then show ?case by simp
next
  case (Cons new rest)
  from Cons.prems have ok: "permitted s new"
    by (auto simp: set_status_def split: if_splits)
  with Cons.prems obtain tr where tr: "status_updates new rest = Some tr"
    and trace: "trace = new # tr"
    by (auto simp: set_status_def)
  from ok no_way_back[of s] have "new \<noteq> PENDING" by auto
  with Cons.IH[OF tr] trace show ?case by auto
qed

lemma update_shapes_all_optional:
  "shape \<in> set update_shapes \<Longrightarrow> f \<in> set shape
     \<Longrightarrow> nullable f \<and> default f = Default VNone"
  unfolding update_shapes_def
  by (auto simp: shape_defs fld_def opt_def)

lemma validate_update_empty:
  assumes "shape \<in> set update_shapes"
  shows "validate_update lax now shape Map.empty = Inr Map.empty"
proof -
  have "\<exists>v. field_value lax now f (Map.empty (fname f)) = Inr v" if "f \<in> set shape" for f
    using update_shapes_all_optional[OF assms that] by (simp add: field_value_def)
  then have "\<exists>obj. model_validate lax now shape Map.empty = Inr obj"
    by (intro model_validate_accept) blast
  then show ?thesis by (auto simp: validate_update_def)
qed




















section \<open>The claims\<close>

text \<open>
  C5. For every string field of a create shape that declares a maximum length, a value
  strictly longer than the maximum makes \<open>validate_create\<close> fail (the field's error
  is the length constraint), and a value of at most the maximum is accepted unchanged
  whenever the other fields of the input are valid. The declared maxima are 50 for the
  symbol of a coin pair, 200 for the title and 1000 for the message of a notification.
\<close>

theorem create_string_max_length:
  assumes "shape \<in> set create_shapes" and "f \<in> set shape"
    and "ftype f = TStr" and "max_length f = Some m"
    and "inp (fname f) = Some (VStr s)"
  shows "(m < length s \<longrightarrow>
            field_value lax now f (inp (fname f)) = Inl (ValidationError (fname f) (MaxLength m)) \<and>
            (\<exists>e. validate_create lax now shape inp = Inl e)) \<and>
         (length s \<le> m \<and>
            (\<forall>g\<in>set shape. g \<noteq> f \<longrightarrow> (\<exists>v. field_value lax now g (inp (fname g)) = Inr v)) \<longrightarrow>
            (\<exists>obj. validate_create lax now shape inp = Inr obj \<and> obj (fname f) = Some (VStr s))) \<and>
         map_option max_length (field_of CoinPairCreate ''symbol'') = Some (Some 50) \<and>
         map_option max_length (field_of NotificationCreate ''title'') = Some (Some 200) \<and>
         map_option max_length (field_of NotificationCreate ''message'') = Some (Some 1000)"
proof -
  have fv: "field_value lax now f (inp (fname f)) = check_str f s"
    using assms(3,5) by (simp add: field_value_def check_value_def has_type_def)
  have long: "m < length s \<Longrightarrow>
      field_value lax now f (inp (fname f)) = Inl (ValidationError (fname f) (MaxLength m))"
    using assms(4) by (simp add: fv check_str_def exceeds_def)
  have short: "length s \<le> m \<Longrightarrow> field_value lax now f (inp (fname f)) = Inr (VStr s)"
    using assms(4) by (simp add: fv check_str_def exceeds_def)
  have rej: "\<exists>e. validate_create lax now shape inp = Inl e" if "m < length s"
    unfolding validate_create_def
    using model_validate_reject[where f = f and inp = inp, OF assms(2) long[OF that]] by blast
  have acc: "\<exists>obj. validate_create lax now shape inp = Inr obj \<and> obj (fname f) = Some (VStr s)"
    if le: "length s \<le> m"
      and others: "\<forall>g\<in>set shape. g \<noteq> f \<longrightarrow> (\<exists>v. field_value lax now g (inp (fname g)) = Inr v)"
  proof -
    have "\<exists>v. field_value lax now g (inp (fname g)) = Inr v" if "g \<in> set shape" for g
      using that others short[OF le] by (cases "g = f") auto
    then have "\<exists>obj. model_validate lax now shape inp = Inr obj"
      by (intro model_validate_accept) blast
    then obtain obj where
      obj: "model_validate lax now shape inp = Inr obj" by blast
    from model_validate_lookup[where f = f and inp = inp,
        OF obj create_shapes_distinct[OF assms(1)] assms(2) short[OF le]]
    have "obj (fname f) = Some (VStr s)" .
    with obj show ?thesis by (simp add: validate_create_def)
  qed
  have decls:
    "map_option max_length (field_of CoinPairCreate ''symbol'') = Some (Some 50)"
    "map_option max_length (field_of NotificationCreate ''title'') = Some (Some 200)"
    "map_option max_length (field_of NotificationCreate ''message'') = Some (Some 1000)"
    by (simp_all add: field_of_def CoinPairCreate_def NotificationCreate_def fld_def)
  from long rej acc decls show ?thesis by blast
qed

text \<open>
  A 51-character symbol is rejected and a 50-character symbol is accepted, with the
  other fields of the coin pair given.
\<close>

theorem create_string_max_length_witness:
  "\<forall>lax.
    (\<exists>e. validate_create lax new_year CoinPairCreate
            [''symbol'' \<mapsto> VStr (replicate 51 (CHR ''A'')), ''base_asset'' \<mapsto> VStr ''BTC'',
             ''quote_asset'' \<mapsto> VStr ''USDT''] = Inl e) \<and>
     (\<exists>obj. validate_create lax new_year CoinPairCreate
            [''symbol'' \<mapsto> VStr (replicate 50 (CHR ''A'')), ''base_asset'' \<mapsto> VStr ''BTC'',
             ''quote_asset'' \<mapsto> VStr ''USDT''] = Inr obj \<and>
          obj ''symbol'' = Some (VStr (replicate 50 (CHR ''A''))))"
  (is "\<forall>lax. ?P lax")
proof (rule allI)
  fix lax
  show "?P lax"
  proof -
    let ?f = "(fld ''symbol'' TStr)\<lparr>max_length := Some 50\<rparr>"
    let ?long = "[''symbol'' \<mapsto> VStr (replicate 51 (CHR ''A'')), ''base_asset'' \<mapsto> VStr ''BTC'',
             ''quote_asset'' \<mapsto> VStr ''USDT'']"
    let ?ok = "[''symbol'' \<mapsto> VStr (replicate 50 (CHR ''A'')), ''base_asset'' \<mapsto> VStr ''BTC'',
             ''quote_asset'' \<mapsto> VStr ''USDT'']"
    have shape: "CoinPairCreate \<in> set create_shapes" by (simp add: create_shapes_def)
    have f: "?f \<in> set CoinPairCreate" by (simp add: CoinPairCreate_def)
    have t: "ftype ?f = TStr" and m: "max_length ?f = Some 50" and n: "fname ?f = ''symbol''"
      by (simp_all add: fld_def)
    have l: "?long (fname ?f) = Some (VStr (replicate 51 (CHR ''A'')))" by (simp add: n)
    have k: "?ok (fname ?f) = Some (VStr (replicate 50 (CHR ''A'')))" by (simp add: n)
    have others: "\<forall>g\<in>set CoinPairCreate. g \<noteq> ?f \<longrightarrow>
        (\<exists>v. field_value lax new_year g (?ok (fname g)) = Inr v)"
      by (simp add: CoinPairCreate_def fld_def field_value_def check_value_def has_type_def check_str_def exceeds_def)
    from create_string_max_length[where f = "?f" and inp = "?long" and now = new_year,
        OF shape f t m l]
    have "\<exists>e. validate_create lax new_year CoinPairCreate ?long = Inl e" by simp
    moreover from create_string_max_length[where f = "?f" and inp = "?ok" and now = new_year,
        OF shape f t m k] others
    have "\<exists>obj. validate_create lax new_year CoinPairCreate ?ok = Inr obj \<and>
        obj ''symbol'' = Some (VStr (replicate 50 (CHR ''A'')))"
      by (simp add: n)
    ultimately show ?thesis by blast
  qed
qed

text \<open>
  C3. In every create shape, a field that the input omits is populated with exactly its
  declared default (and an accepted input can only omit a field that has one), while a
  field the input gives holds the given value as checked; the entity built from the
  create object carries the same value. The declared defaults are 14 for \<open>period\<close>,
  70.00 and 30.00 for the overbought and oversold thresholds, true for
  \<open>applies_to_all_pairs\<close> and true for \<open>is_active\<close> of a coin pair.
\<close>

theorem create_defaults:
  assumes "shape \<in> set create_shapes" and "f \<in> set shape"
    and "validate_create lax now shape inp = Inr obj"
  shows "(inp (fname f) = None \<longrightarrow>
            (\<exists>d. default f = Default d \<and> obj (fname f) = Some d \<and>
              (fname f \<in> fname ` set table \<longrightarrow>
                 table_init now' table obj (fname f) = Some d))) \<and>
         (\<forall>v. inp (fname f) = Some v \<longrightarrow> check_value lax f v = Inr (the (obj (fname f)))) \<and>
         map_option default (field_of RSIDataCreate ''period'') = Some (Default (VInt 14)) \<and>
         map_option default (field_of AlertSettingCreate ''overbought_threshold'') =
           Some (Default (VDecimal (dec 7000 (- 2)))) \<and>
         decimal_str (dec 7000 (- 2)) = ''70.00'' \<and>
         map_option default (field_of AlertSettingCreate ''oversold_threshold'') =
           Some (Default (VDecimal (dec 3000 (- 2)))) \<and>
         decimal_str (dec 3000 (- 2)) = ''30.00'' \<and>
         map_option default (field_of AlertSettingCreate ''applies_to_all_pairs'') =
           Some (Default (VBool True)) \<and>
         map_option default (field_of CoinPairCreate ''is_active'') =
           Some (Default (VBool True))"
proof -
  have mv: "model_validate lax now shape inp = Inr obj"
    using assms(3) by (simp add: validate_create_def)
  note dist = create_shapes_distinct[OF assms(1)]
  note val = model_validate_value[where f = f and inp = inp, OF mv dist assms(2)]
  have omitted: "\<exists>d. default f = Default d \<and> obj (fname f) = Some d \<and>
      (fname f \<in> fname ` set table \<longrightarrow> table_init now' table obj (fname f) = Some d)"
    if none: "inp (fname f) = None"
  proof -
    from val none create_shapes_no_factory[OF assms(1,2)]
    obtain d where d: "default f = Default d" and o: "obj (fname f) = Some d"
      by (cases "default f") (auto simp: field_value_def check_value_def has_type_def)
    from table_init_given[where kwargs = obj and k = "fname f", OF o] d o
    show ?thesis by blast
  qed
  have given: "check_value lax f v = Inr (the (obj (fname f)))" if "inp (fname f) = Some v" for v
    using val(1) that by (simp add: field_value_def check_value_def has_type_def)
  have decls:
    "map_option default (field_of RSIDataCreate ''period'') = Some (Default (VInt 14))"
    "map_option default (field_of AlertSettingCreate ''overbought_threshold'') =
           Some (Default (VDecimal (dec 7000 (- 2))))"
    "map_option default (field_of AlertSettingCreate ''oversold_threshold'') =
           Some (Default (VDecimal (dec 3000 (- 2))))"
    "map_option default (field_of AlertSettingCreate ''applies_to_all_pairs'') =
           Some (Default (VBool True))"
    "map_option default (field_of CoinPairCreate ''is_active'') =
           Some (Default (VBool True))"
    by (simp_all add: field_of_def shape_defs fld_def opt_def)
  have strs: "decimal_str (dec 7000 (- 2)) = ''70.00''" "decimal_str (dec 3000 (- 2)) = ''30.00''"
    by (simp_all add: decimal_str_eval)
  from omitted given decls strs show ?thesis by blast
qed

text \<open>
  The scenario of the specification: a coin pair created with symbol BTCUSDT, base asset
  BTC, quote asset USDT and no \<open>is_active\<close> is active.
\<close>

theorem create_defaults_witness:
  "\<forall>lax.
    \<exists>obj. validate_create lax new_year CoinPairCreate
        [''symbol'' \<mapsto> VStr ''BTCUSDT'', ''base_asset'' \<mapsto> VStr ''BTC'',
         ''quote_asset'' \<mapsto> VStr ''USDT''] = Inr obj \<and>
       obj ''is_active'' = Some (VBool True) \<and>
       table_init new_year CoinPair obj ''is_active'' = Some (VBool True)"
  (is "\<forall>lax. ?P lax")
proof (rule allI)
  fix lax
  show "?P lax"
  proof -
    let ?inp = "[''symbol'' \<mapsto> VStr ''BTCUSDT'', ''base_asset'' \<mapsto> VStr ''BTC'',
         ''quote_asset'' \<mapsto> VStr ''USDT'']"
    let ?f = "(fld ''is_active'' TBool)\<lparr>default := Default (VBool True)\<rparr>"
    have "\<exists>obj. validate_create lax new_year CoinPairCreate ?inp = Inr obj"
      by (simp add: validate_create_def CoinPairCreate_def fld_def field_value_def check_value_def has_type_def
          check_str_def exceeds_def)
    then obtain obj where obj: "validate_create lax new_year CoinPairCreate ?inp = Inr obj" ..
    have shape: "CoinPairCreate \<in> set create_shapes" by (simp add: create_shapes_def)
    have f: "?f \<in> set CoinPairCreate" by (simp add: CoinPairCreate_def)
    have n: "fname ?f = ''is_active''" and d: "default ?f = Default (VBool True)"
      by (simp_all add: fld_def)
    have none: "?inp (fname ?f) = None" by (simp add: n)
    have tab: "fname ?f \<in> fname ` set CoinPair" by (simp add: n CoinPair_def fld_def opt_def)
    from create_defaults[where f = "?f" and table = CoinPair and now' = new_year,
        OF shape f obj] none tab d
    have "obj ''is_active'' = Some (VBool True) \<and>
       table_init new_year CoinPair obj ''is_active'' = Some (VBool True)"
      by (simp add: n)
    with obj show ?thesis by blast
  qed
qed

text \<open>
  C10. An RSI data create input that omits \<open>volume\<close> yields the exact decimal 0
  (coefficient 0, exponent 0, written "0"), and an alert setting create input that omits
  \<open>coin_pair_filters\<close> yields the empty list; the entities built from the create
  objects hold the same values.
\<close>

theorem unstated_defaults:
  "(inp ''volume'' = None \<and> validate_create lax now RSIDataCreate inp = Inr obj \<longrightarrow>
      obj ''volume'' = Some (VDecimal (dec 0 0)) \<and>
      table_init now' RSIData obj ''volume'' = Some (VDecimal (dec 0 0))) \<and>
   decimal_value (dec 0 0) = 0 \<and> decimal_str (dec 0 0) = ''0'' \<and>
   (inp ''coin_pair_filters'' = None \<and> validate_create lax now AlertSettingCreate inp = Inr obj \<longrightarrow>
      obj ''coin_pair_filters'' = Some (VList []) \<and>
      table_init now' AlertSetting obj ''coin_pair_filters'' = Some (VList []))"
proof -
  let ?vol = "(fld ''volume'' TDecimal)\<lparr>default := Default (VDecimal (dec 0 0))\<rparr>"
  let ?cpf = "(fld ''coin_pair_filters'' TListStr)\<lparr>default := Default (VList [])\<rparr>"
  have vol: "obj ''volume'' = Some (VDecimal (dec 0 0)) \<and>
      table_init now' RSIData obj ''volume'' = Some (VDecimal (dec 0 0))"
    if none: "inp ''volume'' = None" and ok: "validate_create lax now RSIDataCreate inp = Inr obj"
  proof -
    have "?vol \<in> set RSIDataCreate" by (simp add: RSIDataCreate_def)
    moreover have "distinct (map fname RSIDataCreate)"
      by (simp add: RSIDataCreate_def fld_def)
    moreover have "default ?vol = Default (VDecimal (dec 0 0))" "fname ?vol = ''volume''"
      by (simp_all add: fld_def)
    ultimately have o: "obj ''volume'' = Some (VDecimal (dec 0 0))"
      using validate_create_omitted[where f = "?vol" and inp = inp, OF ok] none by simp
    have "''volume'' \<in> fname ` set RSIData" by (simp add: RSIData_def fld_def opt_def)
    from table_init_given[where kwargs = obj, OF o this] o show ?thesis by simp
  qed
  have cpf: "obj ''coin_pair_filters'' = Some (VList []) \<and>
      table_init now' AlertSetting obj ''coin_pair_filters'' = Some (VList [])"
    if none: "inp ''coin_pair_filters'' = None"
      and ok: "validate_create lax now AlertSettingCreate inp = Inr obj"
  proof -
    have "?cpf \<in> set AlertSettingCreate" by (simp add: AlertSettingCreate_def)
    moreover have "distinct (map fname AlertSettingCreate)"
      by (simp add: AlertSettingCreate_def fld_def opt_def)
    moreover have "default ?cpf = Default (VList [])" "fname ?cpf = ''coin_pair_filters''"
      by (simp_all add: fld_def)
    ultimately have o: "obj ''coin_pair_filters'' = Some (VList [])"
      using validate_create_omitted[where f = "?cpf" and inp = inp, OF ok] none by simp
    have "''coin_pair_filters'' \<in> fname ` set AlertSetting"
      by (simp add: AlertSetting_def fld_def opt_def)
    from table_init_given[where kwargs = obj, OF o this] o show ?thesis by simp
  qed
  have zero: "decimal_value (dec 0 0) = 0" by (simp add: decimal_value_def dec_def)
  have str: "decimal_str (dec 0 0) = ''0''" by (simp add: decimal_str_eval)
  from vol cpf zero str show ?thesis by blast
qed

text \<open>Both defaults at concrete inputs that omit the two fields.\<close>

theorem unstated_defaults_witness:
  "\<forall>lax.
    (\<exists>obj. validate_create lax new_year RSIDataCreate
        [''coin_pair_id'' \<mapsto> VInt 1, ''rsi_value'' \<mapsto> VDecimal (dec 551234 (- 4)),
         ''price'' \<mapsto> VDecimal (dec 4321050 (- 2))] = Inr obj \<and>
       obj ''volume'' = Some (VDecimal (dec 0 0)) \<and>
       table_init new_year RSIData obj ''volume'' = Some (VDecimal (dec 0 0))) \<and>
     (\<exists>obj. validate_create lax new_year AlertSettingCreate
        [''user_id'' \<mapsto> VInt 1, ''name'' \<mapsto> VStr ''hot'', ''condition'' \<mapsto> VStr ''custom'',
         ''custom_threshold'' \<mapsto> VDecimal (dec 5550 (- 2)),
         ''custom_operator'' \<mapsto> VStr ''>=''] = Inr obj \<and>
       obj ''coin_pair_filters'' = Some (VList []) \<and>
       table_init new_year AlertSetting obj ''coin_pair_filters'' = Some (VList []))"
  (is "\<forall>lax. ?P lax")
proof (rule allI)
  fix lax
  show "?P lax"
  proof -
    let ?r = "[''coin_pair_id'' \<mapsto> VInt 1, ''rsi_value'' \<mapsto> VDecimal (dec 551234 (- 4)),
         ''price'' \<mapsto> VDecimal (dec 4321050 (- 2))]"
    let ?a = "[''user_id'' \<mapsto> VInt 1, ''name'' \<mapsto> VStr ''hot'', ''condition'' \<mapsto> VStr ''custom'',
         ''custom_threshold'' \<mapsto> VDecimal (dec 5550 (- 2)),
         ''custom_operator'' \<mapsto> VStr ''>='']"
    have "\<exists>obj. validate_create lax new_year RSIDataCreate ?r = Inr obj"
      by (simp add: validate_create_def RSIDataCreate_def fld_def field_value_def check_value_def has_type_def
          check_decimal_def exceeds_def whole_limit_def)
    then obtain r where r: "validate_create lax new_year RSIDataCreate ?r = Inr r" ..
    have "\<exists>obj. validate_create lax new_year AlertSettingCreate ?a = Inr obj"
      by (simp add: validate_create_def AlertSettingCreate_def fld_def opt_def field_value_def check_value_def has_type_def
          check_decimal_def check_str_def exceeds_def whole_limit_def total_digits_def
          decimals_def dec_def ndigits.simps check_enum_def AlertCondition_of_def AlertCondition_members_def)
    then obtain a where a: "validate_create lax new_year AlertSettingCreate ?a = Inr a" ..
    from unstated_defaults[where inp = "?r" and obj = r and now = new_year and now' = new_year
          and lax = lax] r
    have "r ''volume'' = Some (VDecimal (dec 0 0)) \<and>
       table_init new_year RSIData r ''volume'' = Some (VDecimal (dec 0 0))" by simp
    moreover from unstated_defaults[where inp = "?a" and obj = a and now = new_year and now' = new_year
          and lax = lax] a
    have "a ''coin_pair_filters'' = Some (VList []) \<and>
       table_init new_year AlertSetting a ''coin_pair_filters'' = Some (VList [])" by simp
    ultimately show ?thesis using r a by blast
  qed
qed

text \<open>
  C9. The notification create shape declares no \<open>status\<close>, \<open>sent_at\<close> or
  \<open>dismissed_at\<close> field, so for every accepted input the notification built from the
  create object starts with status pending and with both timestamps \<open>None\<close>, whatever
  further keys the input carries.
\<close>

theorem notification_initial_state:
  assumes "validate_create lax now NotificationCreate inp = Inr obj"
  shows "table_init now' RSINotification obj ''status'' = Some (VStatus PENDING) \<and>
         table_init now' RSINotification obj ''sent_at'' = Some VNone \<and>
         table_init now' RSINotification obj ''dismissed_at'' = Some VNone \<and>
         field_of NotificationCreate ''status'' = None \<and>
         field_of NotificationCreate ''sent_at'' = None \<and>
         field_of NotificationCreate ''dismissed_at'' = None"
proof -
  let ?status = "(fld ''status'' TNotificationStatus)\<lparr>default := Default (VStatus PENDING)\<rparr>"
  have "''status'' \<notin> fname ` set NotificationCreate"
    "''sent_at'' \<notin> fname ` set NotificationCreate"
    "''dismissed_at'' \<notin> fname ` set NotificationCreate"
    by (simp_all add: NotificationCreate_def fld_def)
  then have "''status'' \<notin> dom obj" "''sent_at'' \<notin> dom obj" "''dismissed_at'' \<notin> dom obj"
    by (simp_all only: validate_create_dom[OF assms] not_False_eq_True)
  then have unset: "obj ''status'' = None" "obj ''sent_at'' = None" "obj ''dismissed_at'' = None"
    by (simp_all only: domIff not_not)
  note dist = tables_distinct(3)
  have "?status \<in> set RSINotification" by (simp add: RSINotification_def)
  from table_init_default[where f = "?status" and kwargs = obj, OF _ dist this] unset(1)
  have s: "table_init now' RSINotification obj ''status'' = Some (VStatus PENDING)"
    by (simp add: fld_def)
  have "opt ''sent_at'' TDatetime \<in> set RSINotification" by (simp add: RSINotification_def)
  from table_init_default[where f = "opt ''sent_at'' TDatetime" and kwargs = obj, OF _ dist this]
    unset(2)
  have t: "table_init now' RSINotification obj ''sent_at'' = Some VNone"
    by (simp add: fld_def opt_def)
  have "opt ''dismissed_at'' TDatetime \<in> set RSINotification"
    by (simp add: RSINotification_def)
  from table_init_default[where f = "opt ''dismissed_at'' TDatetime" and kwargs = obj,
      OF _ dist this] unset(3)
  have d: "table_init now' RSINotification obj ''dismissed_at'' = Some VNone"
    by (simp add: fld_def opt_def)
  have decls: "field_of NotificationCreate ''status'' = None"
    "field_of NotificationCreate ''sent_at'' = None"
    "field_of NotificationCreate ''dismissed_at'' = None"
    by (simp_all add: field_of_def NotificationCreate_def fld_def)
  from s t d decls show ?thesis by blast
qed

text \<open>
  An input that tries to pass \<open>status\<close> and \<open>sent_at\<close> along: both keys are ignored.
\<close>

theorem notification_initial_state_witness:
  "\<forall>lax.
    \<exists>obj. validate_create lax new_year NotificationCreate
        [''user_id'' \<mapsto> VInt 1, ''coin_pair_id'' \<mapsto> VInt 2, ''alert_setting_id'' \<mapsto> VInt 3,
         ''title'' \<mapsto> VStr ''RSI high'', ''message'' \<mapsto> VStr ''BTCUSDT is overbought'',
         ''rsi_value'' \<mapsto> VDecimal (dec 812500 (- 4)),
         ''price_at_alert'' \<mapsto> VDecimal (dec 4321050 (- 2)),
         ''status'' \<mapsto> VStr ''sent'', ''sent_at'' \<mapsto> VDatetime new_year] = Inr obj \<and>
       table_init new_year RSINotification obj ''status'' = Some (VStatus PENDING) \<and>
       table_init new_year RSINotification obj ''sent_at'' = Some VNone \<and>
       table_init new_year RSINotification obj ''dismissed_at'' = Some VNone"
  (is "\<forall>lax. ?P lax")
proof (rule allI)
  fix lax
  show "?P lax"
  proof -
    let ?inp = "[''user_id'' \<mapsto> VInt 1, ''coin_pair_id'' \<mapsto> VInt 2, ''alert_setting_id'' \<mapsto> VInt 3,
         ''title'' \<mapsto> VStr ''RSI high'', ''message'' \<mapsto> VStr ''BTCUSDT is overbought'',
         ''rsi_value'' \<mapsto> VDecimal (dec 812500 (- 4)),
         ''price_at_alert'' \<mapsto> VDecimal (dec 4321050 (- 2)),
         ''status'' \<mapsto> VStr ''sent'', ''sent_at'' \<mapsto> VDatetime new_year]"
    have "\<exists>obj. validate_create lax new_year NotificationCreate ?inp = Inr obj"
      by (simp add: validate_create_def NotificationCreate_def fld_def field_value_def check_value_def has_type_def
          check_decimal_def check_str_def exceeds_def whole_limit_def)
    then obtain obj where obj: "validate_create lax new_year NotificationCreate ?inp = Inr obj" ..
    from notification_initial_state[OF obj, of new_year] obj show ?thesis by blast
  qed
qed

text \<open>
  C6. An enumeration accepts exactly its declared members: looking a string up in
  \<open>AlertCondition\<close> succeeds exactly for overbought, oversold and custom, and in
  \<open>NotificationStatus\<close> exactly for pending, sent and dismissed. A field of
  enumeration type accepts a value exactly when it is a member, or the string of a
  member (or \<open>None\<close> where the annotation is \<open>Optional\<close>, which stands for no
  value). In every create and update shape a string that is no member in an
  \<open>AlertCondition\<close> field fails with the enumeration error of that field; no create or
  update shape has a \<open>NotificationStatus\<close> field.
\<close>

theorem enum_membership:
  "(AlertCondition_of s \<noteq> None \<longleftrightarrow> s \<in> {''overbought'', ''oversold'', ''custom''}) \<and>
   (NotificationStatus_of s \<noteq> None \<longleftrightarrow> s \<in> {''pending'', ''sent'', ''dismissed''}) \<and>
   (ftype f = TAlertCondition \<longrightarrow>
      ((\<exists>v'. check_value lax f v = Inr v') \<longleftrightarrow>
        v \<in> VStr ` {''overbought'', ''oversold'', ''custom''} \<union> range VCondition \<union>
            (if nullable f then {VNone} else {}))) \<and>
   (ftype f = TNotificationStatus \<longrightarrow>
      ((\<exists>v'. check_value lax f v = Inr v') \<longleftrightarrow>
        v \<in> VStr ` {''pending'', ''sent'', ''dismissed''} \<union> range VStatus \<union>
            (if nullable f then {VNone} else {}))) \<and>
   (shape \<in> set (create_shapes @ update_shapes) \<and> f \<in> set shape \<longrightarrow>
      ftype f \<noteq> TNotificationStatus \<and>
      (ftype f = TAlertCondition \<and> inp (fname f) = Some (VStr s) \<and>
       s \<notin> {''overbought'', ''oversold'', ''custom''} \<longrightarrow>
         field_value lax now f (inp (fname f)) = Inl (ValidationError (fname f) EnumMember) \<and>
         (\<exists>e. validate_create lax now shape inp = Inl e) \<and>
         (\<exists>e. validate_update lax now shape inp = Inl e)))"
proof -
  have rej: "field_value lax now f (inp (fname f)) = Inl (ValidationError (fname f) EnumMember) \<and>
         (\<exists>e. validate_create lax now shape inp = Inl e) \<and>
         (\<exists>e. validate_update lax now shape inp = Inl e)"
    if f: "f \<in> set shape" and t: "ftype f = TAlertCondition"
      and given: "inp (fname f) = Some (VStr s)"
      and bad: "s \<notin> {''overbought'', ''oversold'', ''custom''}"
  proof -
    from check_value_bad_condition[OF t bad] given have fv:
      "field_value lax now f (inp (fname f)) = Inl (ValidationError (fname f) EnumMember)"
      by (simp add: field_value_def)
    from model_validate_reject[where f = f and inp = inp, OF f fv]
    obtain e where "model_validate lax now shape inp = Inl e" by blast
    then have "validate_create lax now shape inp = Inl e" "validate_update lax now shape inp = Inl e"
      by (simp_all add: validate_create_def validate_update_def)
    with fv show ?thesis by blast
  qed
  have p3: "ftype f = TAlertCondition \<longrightarrow>
      ((\<exists>v'. check_value lax f v = Inr v') \<longleftrightarrow>
        v \<in> VStr ` {''overbought'', ''oversold'', ''custom''} \<union> range VCondition \<union>
            (if nullable f then {VNone} else {}))"
    using check_value_condition[where f = f and v = v and lax = lax] by (rule impI)
  have p4: "ftype f = TNotificationStatus \<longrightarrow>
      ((\<exists>v'. check_value lax f v = Inr v') \<longleftrightarrow>
        v \<in> VStr ` {''pending'', ''sent'', ''dismissed''} \<union> range VStatus \<union>
            (if nullable f then {VNone} else {}))"
    using check_value_status[where f = f and v = v and lax = lax] by (rule impI)
  have p5: "shape \<in> set (create_shapes @ update_shapes) \<and> f \<in> set shape \<longrightarrow>
      ftype f \<noteq> TNotificationStatus \<and>
      (ftype f = TAlertCondition \<and> inp (fname f) = Some (VStr s) \<and>
       s \<notin> {''overbought'', ''oversold'', ''custom''} \<longrightarrow>
         field_value lax now f (inp (fname f)) = Inl (ValidationError (fname f) EnumMember) \<and>
         (\<exists>e. validate_create lax now shape inp = Inl e) \<and>
         (\<exists>e. validate_update lax now shape inp = Inl e))"
  proof (intro impI conjI; elim conjE)
    assume "shape \<in> set (create_shapes @ update_shapes)" "f \<in> set shape"
    then show "ftype f \<noteq> TNotificationStatus" by (rule no_status_field)
  next
    assume "f \<in> set shape" "ftype f = TAlertCondition" "inp (fname f) = Some (VStr s)"
      "s \<notin> {''overbought'', ''oversold'', ''custom''}"
    from rej[OF this]
    show "field_value lax now f (inp (fname f)) = Inl (ValidationError (fname f) EnumMember)"
      "\<exists>e. validate_create lax now shape inp = Inl e"
      "\<exists>e. validate_update lax now shape inp = Inl e"
      by blast+
  qed
  show ?thesis
    by (rule conjI[OF AlertCondition_of_iff conjI[OF NotificationStatus_of_iff
          conjI[OF p3 conjI[OF p4 p5]]]])
qed

text \<open>
  The condition "sideways" is rejected on alert creation, "custom" is accepted, and
  "archived" is no notification status.
\<close>

theorem enum_membership_witness:
  "\<forall>lax.
    (\<exists>e. validate_create lax new_year AlertSettingCreate
         [''user_id'' \<mapsto> VInt 1, ''name'' \<mapsto> VStr ''hot'', ''condition'' \<mapsto> VStr ''sideways'']
         = Inl e) \<and>
     (\<exists>v'. check_value lax (fld ''condition'' TAlertCondition) (VStr ''custom'') = Inr v') \<and>
     \<not> (\<exists>v'. check_value lax (fld ''status'' TNotificationStatus) (VStr ''archived'') = Inr v')"
  (is "\<forall>lax. ?P lax")
proof (rule allI)
  fix lax
  show "?P lax"
  proof -
    let ?f = "fld ''condition'' TAlertCondition"
    let ?g = "fld ''status'' TNotificationStatus"
    let ?inp = "[''user_id'' \<mapsto> VInt 1, ''name'' \<mapsto> VStr ''hot'',
       ''condition'' \<mapsto> VStr ''sideways'']"
    have shape: "AlertSettingCreate \<in> set (create_shapes @ update_shapes)"
      by (simp add: create_shapes_def)
    have f: "?f \<in> set AlertSettingCreate" by (simp add: AlertSettingCreate_def)
    have t: "ftype ?f = TAlertCondition" "fname ?f = ''condition''" "\<not> nullable ?f"
      by (simp_all add: fld_def)
    have u: "ftype ?g = TNotificationStatus" "\<not> nullable ?g"
      by (simp_all add: fld_def)
    have given: "?inp (fname ?f) = Some (VStr ''sideways'')" by (simp add: t)
    have bad: "''sideways'' \<notin> {''overbought'', ''oversold'', ''custom''}" by simp
    have good: "VStr ''custom'' \<in> VStr ` {''overbought'', ''oversold'', ''custom''} \<union>
        range VCondition \<union> (if nullable ?f then {VNone} else {})" by simp
    have other: "VStr ''archived'' \<notin> VStr ` {''pending'', ''sent'', ''dismissed''} \<union>
        range VStatus \<union> (if nullable ?g then {VNone} else {})"
      by (auto simp: u)
    note at_condition =
      enum_membership[where s = "''sideways''" and f = "?f" and v = "VStr ''custom''" and
        shape = AlertSettingCreate and inp = "?inp" and now = new_year and lax = lax]
    note at_status =
      enum_membership[where s = "''sideways''" and f = "?g" and v = "VStr ''archived''" and
        shape = AlertSettingCreate and inp = "?inp" and now = new_year and lax = lax]
    note shapes = at_condition[THEN conjunct2, THEN conjunct2, THEN conjunct2, THEN conjunct2,
        THEN mp, OF conjI[OF shape f], THEN conjunct2, THEN mp,
        OF conjI[OF t(1) conjI[OF given bad]]]
    from shapes have a: "\<exists>e. validate_create lax new_year AlertSettingCreate ?inp = Inl e"
      by (elim conjE)
    have b: "\<exists>v'. check_value lax ?f (VStr ''custom'') = Inr v'"
      by (rule at_condition[THEN conjunct2, THEN conjunct2, THEN conjunct1, THEN mp, OF t(1),
            THEN iffD2, OF good])
    note iff = at_status[THEN conjunct2, THEN conjunct2, THEN conjunct2, THEN conjunct1,
        THEN mp, OF u(1)]
    have c: "\<not> (\<exists>v'. check_value lax ?g (VStr ''archived'') = Inr v')"
    proof
      assume "\<exists>v'. check_value lax ?g (VStr ''archived'') = Inr v'"
      from iff[THEN iffD1, OF this] other show False by (rule notE[rotated])
    qed
    show ?thesis by (rule conjI[OF a conjI[OF b c]])
  qed
qed

text \<open>
  C1. The claim fails on the code at its own example. \<open>RSIDataCreate\<close> declares
  \<open>rsi_value\<close> as a bare \<open>Decimal\<close>, without \<open>decimal_places\<close> or \<open>max_digits\<close>:
  the input with \<open>rsi_value\<close> 12345.12345 (5 digits after the point, 10 in all) is
  accepted and the value kept as it is, while the declaration of the same field in the
  table class \<open>RSIData\<close> (4 places, 8 digits) rejects that value.
\<close>

theorem rsi_create_accepts_over_precision:
  "(\<exists>obj. validate_create lax now RSIDataCreate
       [''coin_pair_id'' \<mapsto> VInt 1, ''rsi_value'' \<mapsto> VDecimal (dec 1234512345 (- 5)),
        ''price'' \<mapsto> VDecimal (dec 1 0)] = Inr obj \<and>
      obj ''rsi_value'' = Some (VDecimal (dec 1234512345 (- 5)))) \<and>
   decimal_str (dec 1234512345 (- 5)) = ''12345.12345'' \<and>
   decimals (dec 1234512345 (- 5)) = 5 \<and> total_digits (dec 1234512345 (- 5)) = 10 \<and>
   map_option decimal_places (field_of RSIDataCreate ''rsi_value'') = Some None \<and>
   map_option max_digits (field_of RSIDataCreate ''rsi_value'') = Some None \<and>
   map_option decimal_places (field_of RSIData ''rsi_value'') = Some (Some 4) \<and>
   map_option max_digits (field_of RSIData ''rsi_value'') = Some (Some 8) \<and>
   map_option (\<lambda>f. check_value lax f (VDecimal (dec 1234512345 (- 5))))
     (field_of RSIData ''rsi_value'') =
     Some (Inl (ValidationError ''rsi_value'' (MaxDigits 8)))"
proof -
  have a: "\<exists>obj. validate_create lax now RSIDataCreate
       [''coin_pair_id'' \<mapsto> VInt 1, ''rsi_value'' \<mapsto> VDecimal (dec 1234512345 (- 5)),
        ''price'' \<mapsto> VDecimal (dec 1 0)] = Inr obj \<and>
      obj ''rsi_value'' = Some (VDecimal (dec 1234512345 (- 5)))"
    by (simp add: validate_create_def RSIDataCreate_def fld_def field_value_def check_value_def has_type_def
        check_decimal_def exceeds_def whole_limit_def)
  have b: "decimal_str (dec 1234512345 (- 5)) = ''12345.12345''"
    by (simp add: decimal_str_eval)
  have c: "decimals (dec 1234512345 (- 5)) = 5" "total_digits (dec 1234512345 (- 5)) = 10"
    by (simp_all add: decimals_def total_digits_def dec_def ndigits.simps)
  have d: "map_option decimal_places (field_of RSIDataCreate ''rsi_value'') = Some None"
    "map_option max_digits (field_of RSIDataCreate ''rsi_value'') = Some None"
    "map_option decimal_places (field_of RSIData ''rsi_value'') = Some (Some 4)"
    "map_option max_digits (field_of RSIData ''rsi_value'') = Some (Some 8)"
    by (simp_all add: field_of_def RSIDataCreate_def RSIData_def fld_def opt_def)
  have e: "map_option (\<lambda>f. check_value lax f (VDecimal (dec 1234512345 (- 5))))
     (field_of RSIData ''rsi_value'') =
     Some (Inl (ValidationError ''rsi_value'' (MaxDigits 8)))"
  proof -
    have "decimal_normalize (dec 1234512345 (- 5)) = dec 1234512345 (- 5)"
      by (simp add: normalize_eval)
    then show ?thesis
      by (simp add: field_of_def RSIData_def fld_def opt_def check_value_def has_type_def
          check_decimal_def exceeds_def c)
  qed
  from a b c d e show ?thesis by blast
qed

text \<open>
  Where a create shape does declare a scale or a precision, as \<open>AlertSettingCreate\<close>
  does for its thresholds, a decimal whose digits after the point exceed the scale, or
  whose digits in all exceed the precision, both as written and in normal form, makes
  \<open>validate_create\<close> fail.
\<close>

theorem declared_decimal_constraints_enforced:
  assumes "f \<in> set shape" and "ftype f = TDecimal"
    and "inp (fname f) = Some (VDecimal d)"
    and "(exceeds (decimal_places f) (decimals d) \<and>
          exceeds (decimal_places f) (decimals (decimal_normalize d))) \<or>
         (exceeds (max_digits f) (total_digits d) \<and>
          exceeds (max_digits f) (total_digits (decimal_normalize d)))"
  shows "\<exists>e. validate_create lax now shape inp = Inl e"
proof -
  from assms(4) have "\<exists>e. check_decimal f d = Inl e"
    by (auto simp: check_decimal_def)
  with assms(2,3) have "\<exists>e. field_value lax now f (inp (fname f)) = Inl e"
    by (simp add: field_value_def check_value_decimal)
  then obtain e where "field_value lax now f (inp (fname f)) = Inl e" ..
  from model_validate_reject[where f = f and inp = inp, OF assms(1) this]
  show ?thesis by (simp add: validate_create_def)
qed

text \<open>
  An overbought threshold of 70.123 has three digits after the point and is rejected;
  70.000 is written with three but has none in normal form, and is accepted.
\<close>

theorem declared_decimal_constraints_enforced_witness:
  "\<forall>lax.
    (\<exists>e. validate_create lax new_year AlertSettingCreate
       [''user_id'' \<mapsto> VInt 1, ''name'' \<mapsto> VStr ''hot'', ''condition'' \<mapsto> VStr ''custom'',
        ''overbought_threshold'' \<mapsto> VDecimal (dec 70123 (- 3))] = Inl e) \<and>
    (\<exists>obj. validate_create lax new_year AlertSettingCreate
       [''user_id'' \<mapsto> VInt 1, ''name'' \<mapsto> VStr ''hot'', ''condition'' \<mapsto> VStr ''custom'',
        ''overbought_threshold'' \<mapsto> VDecimal (dec 70000 (- 3))] = Inr obj \<and>
       obj ''overbought_threshold'' = Some (VDecimal (dec 70000 (- 3))))"
  (is "\<forall>lax. ?P lax")
proof (rule allI)
  fix lax
  show "?P lax"
  proof -
    let ?f = "(fld ''overbought_threshold'' TDecimal)\<lparr>default := Default (VDecimal (dec 7000 (- 2))),
          decimal_places := Some 2, max_digits := Some 5\<rparr>"
    let ?inp = "[''user_id'' \<mapsto> VInt 1, ''name'' \<mapsto> VStr ''hot'', ''condition'' \<mapsto> VStr ''custom'',
        ''overbought_threshold'' \<mapsto> VDecimal (dec 70123 (- 3))]"
    have f: "?f \<in> set AlertSettingCreate" by (simp add: AlertSettingCreate_def)
    have t: "ftype ?f = TDecimal" by (simp add: fld_def)
    have g: "?inp (fname ?f) = Some (VDecimal (dec 70123 (- 3)))" by (simp add: fld_def)
    have n: "decimal_normalize (dec 70123 (- 3)) = dec 70123 (- 3)"
      by (simp add: normalize_eval)
    have x: "(exceeds (decimal_places ?f) (decimals (dec 70123 (- 3))) \<and>
          exceeds (decimal_places ?f) (decimals (decimal_normalize (dec 70123 (- 3))))) \<or>
         (exceeds (max_digits ?f) (total_digits (dec 70123 (- 3))) \<and>
          exceeds (max_digits ?f) (total_digits (decimal_normalize (dec 70123 (- 3)))))"
      by (simp add: n) (simp add: exceeds_def decimals_def dec_def)
    have a: "\<exists>e. validate_create lax new_year AlertSettingCreate ?inp = Inl e"
      by (rule declared_decimal_constraints_enforced[where f = "?f" and inp = "?inp",
            OF f t g x])
    have m: "decimal_normalize (dec 70000 (- 3)) = dec 7 1"
      by (simp add: normalize_eval)
    have b: "\<exists>obj. validate_create lax new_year AlertSettingCreate
       [''user_id'' \<mapsto> VInt 1, ''name'' \<mapsto> VStr ''hot'', ''condition'' \<mapsto> VStr ''custom'',
        ''overbought_threshold'' \<mapsto> VDecimal (dec 70000 (- 3))] = Inr obj \<and>
       obj ''overbought_threshold'' = Some (VDecimal (dec 70000 (- 3)))"
      by (simp add: validate_eval AlertSettingCreate_def fld_def opt_def m
          AlertCondition_of_def AlertCondition_members_def)
         (simp add: total_digits_def decimals_def dec_def ndigits.simps)
    from a b show ?thesis by (rule conjI)
  qed
qed

text \<open>
  C8. The claim's range fails on the code at \<open>rsi_value\<close> 150.0000. The declarations of
  \<open>rsi_value\<close> bound its digits (4 after the point, 8 in all) but not its value,
  although the comment on the table's field reads "RSI value (0-100)": the create
  shape accepts the input, the row built from it holds 150.0000, and the declaration of
  the field in the table class accepts the value as well.
\<close>

theorem rsi_value_out_of_range_accepted:
  "validate_create lax now RSIDataCreate
       [''coin_pair_id'' \<mapsto> VInt 1, ''rsi_value'' \<mapsto> VDecimal (dec 1500000 (- 4)),
        ''price'' \<mapsto> VDecimal (dec 4321050 (- 2))] =
     Inr [''period'' \<mapsto> VInt 14, ''volume'' \<mapsto> VDecimal (dec 0 0),
          ''price'' \<mapsto> VDecimal (dec 4321050 (- 2)),
          ''rsi_value'' \<mapsto> VDecimal (dec 1500000 (- 4)), ''coin_pair_id'' \<mapsto> VInt 1] \<and>
   table_init now RSIData
        [''period'' \<mapsto> VInt 14, ''volume'' \<mapsto> VDecimal (dec 0 0),
          ''price'' \<mapsto> VDecimal (dec 4321050 (- 2)),
          ''rsi_value'' \<mapsto> VDecimal (dec 1500000 (- 4)), ''coin_pair_id'' \<mapsto> VInt 1]
        ''rsi_value'' = Some (VDecimal (dec 1500000 (- 4))) \<and>
   map_option (\<lambda>f. check_value lax f (VDecimal (dec 1500000 (- 4))))
     (field_of RSIData ''rsi_value'') = Some (Inr (VDecimal (dec 1500000 (- 4)))) \<and>
   decimal_value (dec 1500000 (- 4)) = 150 \<and>
   \<not> (0 \<le> decimal_value (dec 1500000 (- 4)) \<and> decimal_value (dec 1500000 (- 4)) \<le> 100)"
proof -
  let ?obj = "[''period'' \<mapsto> VInt 14, ''volume'' \<mapsto> VDecimal (dec 0 0),
      ''price'' \<mapsto> VDecimal (dec 4321050 (- 2)),
      ''rsi_value'' \<mapsto> VDecimal (dec 1500000 (- 4)), ''coin_pair_id'' \<mapsto> VInt 1]"
  have a: "validate_create lax now RSIDataCreate
       [''coin_pair_id'' \<mapsto> VInt 1, ''rsi_value'' \<mapsto> VDecimal (dec 1500000 (- 4)),
        ''price'' \<mapsto> VDecimal (dec 4321050 (- 2))] = Inr ?obj"
    by (simp add: validate_eval RSIDataCreate_def fld_def)
  have b: "table_init now RSIData ?obj ''rsi_value'' = Some (VDecimal (dec 1500000 (- 4)))"
    by (simp add: RSIData_def fld_def opt_def Let_def)
  have c: "map_option (\<lambda>f. check_value lax f (VDecimal (dec 1500000 (- 4))))
     (field_of RSIData ''rsi_value'') = Some (Inr (VDecimal (dec 1500000 (- 4))))"
    by (simp add: field_of_def RSIData_def fld_def opt_def check_value_def has_type_def
        check_decimal_def exceeds_def whole_limit_def total_digits_def decimals_def dec_def
        ndigits.simps)
  have d: "decimal_value (dec 1500000 (- 4)) = 150"
    by (simp add: decimal_value_def dec_def)
  have e: "\<not> (0 \<le> decimal_value (dec 1500000 (- 4)) \<and> decimal_value (dec 1500000 (- 4)) \<le> 100)"
    by (simp add: d)
  from a b c d e show ?thesis by (intro conjI)
qed

text \<open>
  The precision the table class declares: 4 digits after the point for \<open>rsi_value\<close>, 8
  for \<open>price\<close> and \<open>volume\<close>. Every decimal written with exactly 4 digits after the
  point and at most 8 digits passes the declaration of \<open>rsi_value\<close>, and every decimal
  written with exactly 8 digits after the point and at most 20 digits passes those of
  \<open>price\<close> and \<open>volume\<close>. A decimal that passes the declaration of \<open>rsi_value\<close> is
  kept as it is, has at most 4 digits after the point as written or in normal form,
  and is below 10000 in absolute value.
\<close>

theorem rsi_declared_precision:
  "map_option decimal_places (field_of RSIData ''rsi_value'') = Some (Some 4) \<and>
   map_option decimal_places (field_of RSIData ''price'') = Some (Some 8) \<and>
   map_option decimal_places (field_of RSIData ''volume'') = Some (Some 8) \<and>
   (exponent d = - 4 \<and> ndigits (coefficient d) \<le> 8 \<longrightarrow>
      map_option (\<lambda>f. check_value lax f (VDecimal d)) (field_of RSIData ''rsi_value'') =
        Some (Inr (VDecimal d))) \<and>
   (exponent d = - 8 \<and> ndigits (coefficient d) \<le> 20 \<longrightarrow>
      map_option (\<lambda>f. check_value lax f (VDecimal d)) (field_of RSIData ''price'') =
        Some (Inr (VDecimal d)) \<and>
      map_option (\<lambda>f. check_value lax f (VDecimal d)) (field_of RSIData ''volume'') =
        Some (Inr (VDecimal d))) \<and>
   (map_option (\<lambda>f. check_value lax f (VDecimal d)) (field_of RSIData ''rsi_value'') =
        Some (Inr v) \<longrightarrow>
      v = VDecimal d \<and> \<bar>decimal_value d\<bar> < 10000 \<and>
      (decimals d \<le> 4 \<or> decimals (decimal_normalize d) \<le> 4))"
proof -
  let ?rsi = "(fld ''rsi_value'' TDecimal)\<lparr>decimal_places := Some 4, max_digits := Some 8\<rparr>"
  have fo: "field_of RSIData ''rsi_value'' = Some ?rsi"
    by (simp add: field_of_def RSIData_def fld_def opt_def)
  have decls:
    "map_option decimal_places (field_of RSIData ''rsi_value'') = Some (Some 4)"
    "map_option decimal_places (field_of RSIData ''price'') = Some (Some 8)"
    "map_option decimal_places (field_of RSIData ''volume'') = Some (Some 8)"
    by (simp_all add: field_of_def RSIData_def fld_def opt_def)
  have admit4: "map_option (\<lambda>f. check_value lax f (VDecimal d)) (field_of RSIData ''rsi_value'') =
        Some (Inr (VDecimal d))"
    if "exponent d = - 4" "ndigits (coefficient d) \<le> 8"
    using that
    by (auto simp: field_of_def RSIData_def fld_def opt_def check_value_def has_type_def
        check_decimal_def exceeds_def whole_limit_def total_digits_def decimals_def)
  have admit8: "map_option (\<lambda>f. check_value lax f (VDecimal d)) (field_of RSIData ''price'') =
        Some (Inr (VDecimal d)) \<and>
      map_option (\<lambda>f. check_value lax f (VDecimal d)) (field_of RSIData ''volume'') =
        Some (Inr (VDecimal d))"
    if "exponent d = - 8" "ndigits (coefficient d) \<le> 20"
    using that
    by (auto simp: field_of_def RSIData_def fld_def opt_def check_value_def has_type_def
        check_decimal_def exceeds_def whole_limit_def total_digits_def decimals_def)
  have passed: "v = VDecimal d \<and> \<bar>decimal_value d\<bar> < 10000 \<and>
      (decimals d \<le> 4 \<or> decimals (decimal_normalize d) \<le> 4)"
    if "map_option (\<lambda>f. check_value lax f (VDecimal d)) (field_of RSIData ''rsi_value'') =
        Some (Inr v)"
  proof -
    from that have "check_decimal ?rsi d = Inr v"
      by (simp add: fo check_value_decimal fld_def)
    from check_decimal_whole[OF this, of 4 8]
    have w: "v = VDecimal d" "total_digits d - decimals d \<le> 4"
      "decimals d \<le> 4 \<or> decimals (decimal_normalize d) \<le> 4"
      by (simp_all add: fld_def)
    from w(2) have "\<bar>decimal_value d\<bar> < 10 ^ 4" by (rule decimal_value_bound)
    with w show ?thesis by simp
  qed
  from decls admit4 admit8 passed show ?thesis by blast
qed

text \<open>
  55.1234 passes the declaration of \<open>rsi_value\<close> and lies below 10000; 55.12340,
  written with a trailing zero, passes as well.
\<close>

theorem rsi_declared_precision_witness:
  "\<forall>lax.
    map_option (\<lambda>f. check_value lax f (VDecimal (dec 551234 (- 4))))
      (field_of RSIData ''rsi_value'') = Some (Inr (VDecimal (dec 551234 (- 4)))) \<and>
    \<bar>decimal_value (dec 551234 (- 4))\<bar> < 10000 \<and>
    map_option (\<lambda>f. check_value lax f (VDecimal (dec 5512340 (- 5))))
      (field_of RSIData ''rsi_value'') = Some (Inr (VDecimal (dec 5512340 (- 5))))"
  (is "\<forall>lax. ?P lax")
proof (rule allI)
  fix lax
  show "?P lax"
  proof -
    note at = rsi_declared_precision[where d = "dec 551234 (- 4)" and lax = lax
        and v = "VDecimal (dec 551234 (- 4))"]
    have small: "exponent (dec 551234 (- 4)) = - 4 \<and> ndigits (coefficient (dec 551234 (- 4))) \<le> 8"
      by (simp add: dec_def ndigits.simps)
    note a = at[THEN conjunct2, THEN conjunct2, THEN conjunct2, THEN conjunct1, THEN mp,
        OF small]
    note b = at[THEN conjunct2, THEN conjunct2, THEN conjunct2, THEN conjunct2, THEN conjunct2,
        THEN mp, OF a, THEN conjunct2, THEN conjunct1]
    have n: "decimal_normalize (dec 5512340 (- 5)) = dec 551234 (- 4)"
      by (simp add: normalize_eval)
    have c: "map_option (\<lambda>f. check_value lax f (VDecimal (dec 5512340 (- 5))))
      (field_of RSIData ''rsi_value'') = Some (Inr (VDecimal (dec 5512340 (- 5))))"
      by (simp add: field_of_def RSIData_def fld_def opt_def check_value_def has_type_def
          check_decimal_def exceeds_def whole_limit_def n)
         (simp add: total_digits_def decimals_def dec_def ndigits.simps)
    show ?thesis by (rule conjI[OF a conjI[OF b c]])
  qed
qed

text \<open>
  C7. From pending a notification may change to sent or to dismissed; no permitted
  transition leads to pending, an update to pending is refused from every status, and
  in every accepted sequence of status updates no status reached is pending: once a
  notification has left pending it never returns.
\<close>

theorem status_monotonic:
  "permitted PENDING SENT \<and> permitted PENDING DISMISSED \<and> \<not> permitted s PENDING \<and>
   set_status s PENDING = None \<and>
   (status_updates s news = Some trace \<longrightarrow> trace = news \<and> PENDING \<notin> set trace)"
  using no_way_back[of s] status_updates_trace[of s news trace]
  by (simp add: set_status_def)

text \<open>
  Pending to sent and pending to dismissed are accepted; going back to pending after
  sent is refused.
\<close>

theorem status_monotonic_witness:
  "status_updates PENDING [SENT] = Some [SENT] \<and> PENDING \<notin> set [SENT] \<and>
   status_updates PENDING [DISMISSED] = Some [DISMISSED] \<and>
   status_updates PENDING [SENT, PENDING] = None"
proof -
  have a: "status_updates PENDING [SENT] = Some [SENT]" by (simp add: set_status_def)
  from status_monotonic[of PENDING "[SENT]" "[SENT]"] a
  have b: "PENDING \<notin> set [SENT]" by blast
  have c: "status_updates PENDING [DISMISSED] = Some [DISMISSED]"
    "status_updates PENDING [SENT, PENDING] = None"
    by (simp_all add: set_status_def)
  from a b c show ?thesis by blast
qed

text \<open>
  C4. In every update shape every field is optional (an \<open>Optional\<close> annotation with
  default \<open>None\<close>), so the update with all fields omitted is valid and empty, and
  applying it leaves the stored entity unchanged. For every accepted update, the
  partial entity holds exactly the declared fields the input supplies, with their
  checked values; applying it gives those fields their new values and keeps every
  other attribute of the stored entity, so no default, create-time or other, is
  written to an omitted field.
\<close>

theorem update_frame:
  assumes "shape \<in> set update_shapes" and "validate_update lax now shape inp = Inr partial"
  shows "(\<forall>f\<in>set shape. nullable f \<and> default f = Default VNone) \<and>
         validate_update lax now shape Map.empty = Inr Map.empty \<and>
         apply_update stored Map.empty = stored \<and>
         dom partial = dom inp \<inter> fname ` set shape \<and>
         (\<forall>k. k \<notin> dom partial \<longrightarrow> apply_update stored partial k = stored k) \<and>
         (\<forall>k\<in>dom partial. apply_update stored partial k = partial k) \<and>
         (\<forall>f\<in>set shape. \<forall>v. inp (fname f) = Some v \<longrightarrow>
            check_value lax f v = Inr (the (partial (fname f))))"
proof -
  from assms(2) obtain obj where obj: "model_validate lax now shape inp = Inr obj"
    and partial: "partial = obj |` dom inp"
    by (auto simp: validate_update_def split: sum.splits)
  note dist = update_shapes_distinct[OF assms(1)]
  have a: "\<forall>f\<in>set shape. nullable f \<and> default f = Default VNone"
    using update_shapes_all_optional[OF assms(1)] by blast
  have b: "apply_update stored Map.empty = stored" by (simp add: apply_update_def)
  have c: "dom partial = dom inp \<inter> fname ` set shape"
    unfolding partial using model_validate_dom[OF obj] by auto
  have d: "\<forall>k. k \<notin> dom partial \<longrightarrow> apply_update stored partial k = stored k"
    by (simp add: apply_update_def map_add_dom_app_simps)
  have e: "\<forall>k\<in>dom partial. apply_update stored partial k = partial k"
    by (simp add: apply_update_def map_add_dom_app_simps)
  have f: "\<forall>f\<in>set shape. \<forall>v. inp (fname f) = Some v \<longrightarrow>
            check_value lax f v = Inr (the (partial (fname f)))"
  proof (intro ballI allI impI)
    fix f v assume f: "f \<in> set shape" and v: "inp (fname f) = Some v"
    from model_validate_value(1)[where f = f and inp = inp, OF obj dist f] v
    have "check_value lax f v = Inr (the (obj (fname f)))" by (simp add: field_value_def check_value_def has_type_def)
    moreover from v have "partial (fname f) = obj (fname f)"
      unfolding partial by (simp add: restrict_map_def domI)
    ultimately show "check_value lax f v = Inr (the (partial (fname f)))" by simp
  qed
  from a validate_update_empty[OF assms(1)] b c d e f show ?thesis by blast
qed

text \<open>
  An update of the symbol alone on an inactive coin pair: the symbol changes and
  \<open>is_active\<close> stays false, although a create input that omits it would get true.
\<close>

theorem update_frame_witness:
  "\<forall>lax.
    \<exists>partial. validate_update lax new_year CoinPairUpdate [''symbol'' \<mapsto> VStr ''ETHUSDT''] = Inr partial \<and>
       dom partial = {''symbol''} \<and>
       apply_update
         [''symbol'' \<mapsto> VStr ''BTCUSDT'', ''base_asset'' \<mapsto> VStr ''BTC'',
          ''quote_asset'' \<mapsto> VStr ''USDT'', ''is_active'' \<mapsto> VBool False]
         partial ''is_active'' = Some (VBool False) \<and>
       apply_update
         [''symbol'' \<mapsto> VStr ''BTCUSDT'', ''base_asset'' \<mapsto> VStr ''BTC'',
          ''quote_asset'' \<mapsto> VStr ''USDT'', ''is_active'' \<mapsto> VBool False]
         partial ''symbol'' = Some (VStr ''ETHUSDT'')"
  (is "\<forall>lax. ?P lax")
proof (rule allI)
  fix lax
  show "?P lax"
  proof -
    let ?inp = "[''symbol'' \<mapsto> VStr ''ETHUSDT'']"
    let ?stored = "[''symbol'' \<mapsto> VStr ''BTCUSDT'', ''base_asset'' \<mapsto> VStr ''BTC'',
          ''quote_asset'' \<mapsto> VStr ''USDT'', ''is_active'' \<mapsto> VBool False]"
    let ?f = "(opt ''symbol'' TStr)\<lparr>max_length := Some 50\<rparr>"
    have shape: "CoinPairUpdate \<in> set update_shapes" by (simp add: update_shapes_def)
    have "\<exists>partial. validate_update lax new_year CoinPairUpdate ?inp = Inr partial"
      by (simp add: validate_update_def CoinPairUpdate_def fld_def opt_def field_value_def check_value_def has_type_def
          check_str_def exceeds_def)
    then obtain partial where p: "validate_update lax new_year CoinPairUpdate ?inp = Inr partial" ..
    note frame = update_frame[OF shape p, of ?stored]
    have f: "?f \<in> set CoinPairUpdate" by (simp add: CoinPairUpdate_def)
    have n: "fname ?f = ''symbol''" by (simp add: opt_def fld_def)
    from frame have "dom partial = dom ?inp \<inter> fname ` set CoinPairUpdate" by (elim conjE)
    then have dom: "dom partial = {''symbol''}"
      by (simp add: CoinPairUpdate_def fld_def opt_def)
    from frame have "\<forall>k. k \<notin> dom partial \<longrightarrow> apply_update ?stored partial k = ?stored k"
      by (elim conjE)
    with dom have keep: "apply_update ?stored partial ''is_active'' = Some (VBool False)"
      by simp
    from frame have "\<forall>f\<in>set CoinPairUpdate. \<forall>v. ?inp (fname f) = Some v \<longrightarrow>
              check_value lax f v = Inr (the (partial (fname f)))" by (elim conjE)
    with f have "check_value lax ?f (VStr ''ETHUSDT'') = Inr (the (partial ''symbol''))"
      by (simp add: n)
    then have "the (partial ''symbol'') = VStr ''ETHUSDT''"
      by (simp add: opt_def fld_def check_value_def has_type_def check_str_def exceeds_def)
    moreover from dom have "partial ''symbol'' \<noteq> None" by blast
    ultimately have ps: "partial ''symbol'' = Some (VStr ''ETHUSDT'')" by auto
    from frame have "\<forall>k\<in>dom partial. apply_update ?stored partial k = partial k" by (elim conjE)
    with dom ps have new: "apply_update ?stored partial ''symbol'' = Some (VStr ''ETHUSDT'')"
      by simp
    from p dom keep new show ?thesis by blast
  qed
qed




end
